theory Spec2Isabelle
  imports Main "HOL-Library.Sublist"
begin

section \<open>Values thrown by JavaScript code\<close>

text \<open>
  A rejected promise or a \<^verbatim>\<open>throw\<close> carries a value. The service layer creates
  plain \<^verbatim>\<open>Error\<close> objects with a message; reading a property of \<^verbatim>\<open>undefined\<close>
  raises a \<^verbatim>\<open>TypeError\<close>; the SDK, \<^verbatim>\<open>fetch\<close> and a caller-supplied callback may
  throw anything, also a value without a \<^verbatim>\<open>message\<close> property.
\<close>

datatype thrown = Error string | TypeError string | NonError

fun message :: "thrown \<Rightarrow> string option" where
  "message (Error m) = Some m"
| "message (TypeError m) = Some m"
| "message NonError = None"

text \<open>A template literal renders \<^verbatim>\<open>undefined\<close> as the text "undefined".\<close>

fun template :: "string option \<Rightarrow> string" where
  "template None = ''undefined''"
| "template (Some s) = s"

section \<open>Observable effects\<close>

text \<open>
  Every call that leaves the service function is recorded in a trace, in program order:
  the observer callback, HTTP requests made with \<^verbatim>\<open>fetch\<close>, SDK calls, the timer of the
  polling loop and \<^verbatim>\<open>console.error\<close>. An HTTP request carries its method and URL; a
  content-generation call its model, the MIME type and the URI or bytes of the file
  part, and the prompt; a video-generation call its prompt, image payload and aspect
  ratio; the timer its delay in milliseconds.
\<close>

datatype VideoAspectRatio = Landscape_16_9 | Portrait_9_16

datatype event =
    StateChange string
  | HttpRequest string string
  | GenerateContent string string string string
  | GenerateVideos string "(string \<times> string) option" VideoAspectRatio
  | Sleep nat
  | GetVideosOperation
  | ReadFile string
  | CreateObjectURL
  | GenerateSpeech string
  | ConsoleError string

fun is_delete :: "event \<Rightarrow> bool" where
  "is_delete (HttpRequest m url) = (m = ''DELETE'')"
| "is_delete _ = False"

fun is_upload :: "event \<Rightarrow> bool" where
  "is_upload (HttpRequest m url) = (m = ''POST'')"
| "is_upload _ = False"

fun is_download :: "event \<Rightarrow> bool" where
  "is_download (HttpRequest m url) = (m = ''GET'')"
| "is_download _ = False"

fun is_analysis :: "event \<Rightarrow> bool" where
  "is_analysis (GenerateContent model mime uri prompt) = True"
| "is_analysis _ = False"

fun is_poll :: "event \<Rightarrow> bool" where
  "is_poll GetVideosOperation = True"
| "is_poll _ = False"

text \<open>
  An asynchronous function is a computation over the trace that ends with the value its
  promise is fulfilled with (\<open>Inr\<close>) or the value it is rejected with (\<open>Inl\<close>).
\<close>

type_synonym 'a async = "event list \<Rightarrow> (thrown + 'a) \<times> event list"

definition resolve :: "'a \<Rightarrow> 'a async" where
  "resolve x = (\<lambda>tr. (Inr x, tr))"

definition throw :: "thrown \<Rightarrow> 'a async" where
  "throw e = (\<lambda>tr. (Inl e, tr))"

definition emit :: "event \<Rightarrow> unit async" where
  "emit ev = (\<lambda>tr. (Inr (), tr @ [ev]))"

text \<open>\<^verbatim>\<open>await\<close> on a call whose outcome the environment decides.\<close>

definition await :: "thrown + 'a \<Rightarrow> 'a async" where
  "await r = (\<lambda>tr. (r, tr))"

definition bind :: "'a async \<Rightarrow> ('a \<Rightarrow> 'b async) \<Rightarrow> 'b async" where
  "bind m f = (\<lambda>tr. case m tr of (Inl e, tr') \<Rightarrow> (Inl e, tr') | (Inr x, tr') \<Rightarrow> f x tr')"

section \<open>Files and the provider\<close>

record js_file =
  file_name :: string
  file_type :: string

record file_resource =
  remote_name :: string
  remote_uri :: string

text \<open>The JSON body of the upload response; its \<^verbatim>\<open>file\<close> member may be absent.\<close>

record upload_result =
  file_member :: "file_resource option"

record http_response =
  ok :: bool
  body_text :: "thrown + string"
  body_json :: "thrown + upload_result"

text \<open>
  The process-wide key \<^verbatim>\<open>process.env.API_KEY\<close>, read anew at each use, and the outcome
  of \<^verbatim>\<open>getAi()\<close>, which builds a new SDK client from the key at each call. The
  constructor belongs to the SDK; in a browser it refuses an absent key by throwing. What
  it does is a parameter here, so every behaviour of the constructor is covered.
\<close>

record env =
  API_KEY :: "string option"
  getAi :: "thrown + unit"

text \<open>
  The environment of one run of an analysis function: the key, the outcome of the upload
  request and the outcome of the content-generation call (its \<^verbatim>\<open>text\<close>).
\<close>

record world = env +
  upload_fetch :: "thrown + http_response"
  generateContent :: "thrown + string"

definition upload_url :: "string \<Rightarrow> string" where
  "upload_url apiKey =
     ''https://generativelanguage.googleapis.com/upload/v1beta/files?upload_type=multipart&key='' @ apiKey"

definition delete_url :: "string \<Rightarrow> string option \<Rightarrow> string" where
  "delete_url nm apiKey =
     ''https://generativelanguage.googleapis.com/v1beta/'' @ nm @ ''?key='' @ template apiKey"

text \<open>\<^verbatim>\<open>!apiKey\<close> holds for \<^verbatim>\<open>undefined\<close> and for the empty string.\<close>

definition uploadFile :: "world \<Rightarrow> js_file \<Rightarrow> file_resource option async" where
  "uploadFile w f =
     (case API_KEY w of
        None \<Rightarrow> throw (Error ''API key not found for file upload.'')
      | Some apiKey \<Rightarrow>
          if apiKey = [] then throw (Error ''API key not found for file upload.'')
          else
            bind (emit (HttpRequest ''POST'' (upload_url apiKey))) (\<lambda>_.
            bind (await (upload_fetch w)) (\<lambda>uploadResponse.
              if \<not> ok uploadResponse then
                bind (await (body_text uploadResponse)) (\<lambda>errorText.
                bind (emit (ConsoleError (''File upload failed: '' @ errorText))) (\<lambda>_.
                throw (Error (''File upload failed: '' @ errorText))))
              else
                bind (await (body_json uploadResponse)) (\<lambda>uploadResult.
                resolve (file_member uploadResult)))))"

text \<open>
  The observer is a parameter: called with a label it returns, or throws. Reading
  \<^verbatim>\<open>uploadedFile.uri\<close> of an absent file resource raises a \<^verbatim>\<open>TypeError\<close> while the
  arguments of the analysis call are built, before the call. The delete request is not
  awaited: it is issued, and its outcome reaches nobody.
\<close>

definition notify :: "(string \<Rightarrow> thrown + unit) \<Rightarrow> string \<Rightarrow> unit async" where
  "notify onStateChange label =
     bind (emit (StateChange label)) (\<lambda>_. await (onStateChange label))"

definition read_uri :: "file_resource option \<Rightarrow> file_resource async" where
  "read_uri uploadedFile =
     (case uploadedFile of
        None \<Rightarrow> throw (TypeError ''Cannot read properties of undefined (reading 'uri')'')
      | Some r \<Rightarrow> resolve r)"

definition analyzeVideoContent ::
  "world \<Rightarrow> js_file \<Rightarrow> string \<Rightarrow> (string \<Rightarrow> thrown + unit) \<Rightarrow> string async" where
  "analyzeVideoContent w videoFile prompt onStateChange =
     bind (notify onStateChange ''uploading'') (\<lambda>_.
     bind (uploadFile w videoFile) (\<lambda>uploadedFile.
     bind (notify onStateChange ''analyzing'') (\<lambda>_.
     bind (await (getAi w)) (\<lambda>ai.
     bind (read_uri uploadedFile) (\<lambda>r.
     bind (emit (GenerateContent ''gemini-2.5-pro'' (file_type videoFile) (remote_uri r) prompt)) (\<lambda>_.
     bind (await (generateContent w)) (\<lambda>response_text.
     bind (emit (HttpRequest ''DELETE'' (delete_url (remote_name r) (API_KEY w)))) (\<lambda>_.
     resolve response_text))))))))"

definition analyzeAudioContent ::
  "world \<Rightarrow> js_file \<Rightarrow> string \<Rightarrow> (string \<Rightarrow> thrown + unit) \<Rightarrow> string async" where
  "analyzeAudioContent w audioFile prompt onStateChange =
     bind (notify onStateChange ''uploading'') (\<lambda>_.
     bind (uploadFile w audioFile) (\<lambda>uploadedFile.
     bind (notify onStateChange ''analyzing'') (\<lambda>_.
     bind (await (getAi w)) (\<lambda>ai.
     bind (read_uri uploadedFile) (\<lambda>r.
     bind (emit (GenerateContent ''gemini-2.5-pro'' (file_type audioFile) (remote_uri r) prompt)) (\<lambda>_.
     bind (await (generateContent w)) (\<lambda>response_text.
     bind (emit (HttpRequest ''DELETE'' (delete_url (remote_name r) (API_KEY w)))) (\<lambda>_.
     resolve response_text))))))))"


section \<open>Video generation\<close>

text \<open>
  A long-running operation as the SDK returns it. Every member on the way to the result
  URI may be absent, and the code reads them with optional chaining. An absent
  \<^verbatim>\<open>done\<close> reads as false in the loop condition, so it is a plain boolean here.
\<close>

record video =
  uri :: "string option"

record generated_video =
  video_member :: "video option"

record videos_response =
  generatedVideos :: "generated_video list option"

record operation =
  op_done :: bool
  op_response :: "videos_response option"

record download_response =
  blob :: "thrown + string"

text \<open>
  The environment of one run of \<^verbatim>\<open>generateVideo\<close>. \<^verbatim>\<open>fileToBase64\<close> lives in a module
  that is not part of the sources at hand, so its outcome is a parameter, as are the
  outcomes of the provider calls. \<open>getVideosOperation w k\<close> is the outcome of the
  refresh call number \<open>k\<close>, counted from 0.
\<close>

record media_env = env +
  fileToBase64 :: "js_file \<Rightarrow> thrown + string"

record video_world = media_env +
  generateVideos :: "thrown + operation"
  getVideosOperation :: "nat \<Rightarrow> thrown + operation"
  download_fetch :: "thrown + download_response"
  createObjectURL :: "string \<Rightarrow> string"

text \<open>\<^verbatim>\<open>operation.response?.generatedVideos?.[0]?.video?.uri\<close>\<close>

definition downloadLink :: "operation \<Rightarrow> string option" where
  "downloadLink operation =
     (case op_response operation of
        None \<Rightarrow> None
      | Some r \<Rightarrow>
          (case generatedVideos r of
             None \<Rightarrow> None
           | Some [] \<Rightarrow> None
           | Some (g # _) \<Rightarrow>
               (case video_member g of
                  None \<Rightarrow> None
                | Some v \<Rightarrow> uri v)))"

text \<open>
  The part of \<^verbatim>\<open>generateVideo\<close> before the loop: the client, the image payload and
  the first call.
\<close>

definition generateVideo_start ::
  "video_world \<Rightarrow> string \<Rightarrow> js_file option \<Rightarrow> VideoAspectRatio \<Rightarrow> operation async" where
  "generateVideo_start w prompt imageFile aspectRatio =
     bind (await (getAi w)) (\<lambda>ai.
     bind (case imageFile of
             None \<Rightarrow> resolve None
           | Some f \<Rightarrow>
               bind (emit (ReadFile (file_name f))) (\<lambda>_.
               bind (await (fileToBase64 w f)) (\<lambda>base64Image.
               resolve (Some (base64Image, file_type f))))) (\<lambda>imagePayload.
     bind (emit (GenerateVideos prompt imagePayload aspectRatio)) (\<lambda>_.
     await (generateVideos w))))"

text \<open>
  The loop \<^verbatim>\<open>while (!operation.done)\<close>: a ten-second timer, then the refresh call, whose
  result replaces the operation. Nothing bounds the number of rounds, so the loop is a
  partial function: \<open>None\<close> is the run that never leaves it.
\<close>

partial_function (option) generateVideo_poll ::
  "(nat \<Rightarrow> thrown + operation) \<Rightarrow> nat \<Rightarrow> operation \<Rightarrow> event list
     \<Rightarrow> ((thrown + operation) \<times> event list) option" where
  "generateVideo_poll refresh k operation tr =
     (if op_done operation then Some (Inr operation, tr)
      else
        (case refresh k of
           Inl e \<Rightarrow> Some (Inl e, tr @ [Sleep 10000, GetVideosOperation])
         | Inr operation' \<Rightarrow>
             generateVideo_poll refresh (Suc k) operation' (tr @ [Sleep 10000, GetVideosOperation])))"

text \<open>
  The part after the loop. \<^verbatim>\<open>if (downloadLink)\<close> is false for an absent link and for
  the empty string. The response of the download is not checked for its status.
\<close>

definition generateVideo_finish :: "video_world \<Rightarrow> operation \<Rightarrow> string async" where
  "generateVideo_finish w operation =
     (case downloadLink operation of
        None \<Rightarrow> throw (Error ''Video generation failed.'')
      | Some link \<Rightarrow>
          if link = [] then throw (Error ''Video generation failed.'')
          else
            bind (emit (HttpRequest ''GET'' (link @ ''&key='' @ template (API_KEY w)))) (\<lambda>_.
            bind (await (download_fetch w)) (\<lambda>response.
            bind (await (blob response)) (\<lambda>videoBlob.
            bind (emit CreateObjectURL) (\<lambda>_.
            resolve (createObjectURL w videoBlob))))))"

definition generateVideo ::
  "video_world \<Rightarrow> string \<Rightarrow> js_file option \<Rightarrow> VideoAspectRatio \<Rightarrow> event list
     \<Rightarrow> ((thrown + string) \<times> event list) option" where
  "generateVideo w prompt imageFile aspectRatio tr0 =
     (case generateVideo_start w prompt imageFile aspectRatio tr0 of
        (Inl e, tr) \<Rightarrow> Some (Inl e, tr)
      | (Inr operation, tr) \<Rightarrow>
          (case generateVideo_poll (getVideosOperation w) 0 operation tr of
             None \<Rightarrow> None
           | Some (Inl e, tr') \<Rightarrow> Some (Inl e, tr')
           | Some (Inr operation', tr') \<Rightarrow> Some (generateVideo_finish w operation' tr')))"

section \<open>The video panel\<close>

text \<open>\<^verbatim>\<open>String.prototype.includes\<close>: the argument occurs as a contiguous part.\<close>

definition str_includes :: "string \<Rightarrow> string \<Rightarrow> bool" where
  "str_includes s searchString = sublist searchString s"

record video_panel =
  vg_prompt :: string
  vg_imageFile :: "js_file option"
  vg_aspectRatio :: VideoAspectRatio
  vg_result :: string
  vg_loading :: bool
  vg_error :: string
  apiKeySelected :: bool
  checkingApiKey :: bool

text \<open>
  \<^verbatim>\<open>err?.message?.includes('Requested entity was not found.')\<close>: false for a thrown
  value without a message.
\<close>

definition entity_not_found :: "thrown \<Rightarrow> bool" where
  "entity_not_found err =
     (case message err of
        None \<Rightarrow> False
      | Some m \<Rightarrow> str_includes m ''Requested entity was not found.'')"

text \<open>
  \<^verbatim>\<open>VideoGenPanel.handleSubmit\<close>, with the translation function \<open>t\<close> of the panel. The
  statements before the \<^verbatim>\<open>await\<close> are \<open>handleSubmit_begin\<close>; \<open>handleSubmit_settle\<close> is
  the rest of the \<^verbatim>\<open>try\<close>, the \<^verbatim>\<open>catch\<close> and the \<^verbatim>\<open>finally\<close>. A run of the service
  that never returns leaves the panel as it was at the \<^verbatim>\<open>await\<close>.
\<close>

definition handleSubmit_begin :: "video_panel \<Rightarrow> video_panel" where
  "handleSubmit_begin s = s\<lparr>vg_loading := True, vg_error := [], vg_result := []\<rparr>"

definition handleSubmit_settle ::
  "(string \<Rightarrow> string) \<Rightarrow> thrown + string \<Rightarrow> video_panel \<Rightarrow> video_panel" where
  "handleSubmit_settle t outcome s =
     (case outcome of
        Inr videoUrl \<Rightarrow> s\<lparr>vg_result := videoUrl, vg_loading := False\<rparr>
      | Inl err \<Rightarrow>
          if entity_not_found err
          then s\<lparr>vg_error := t ''apiKeyError'', apiKeySelected := False, vg_loading := False\<rparr>
          else s\<lparr>vg_error := t ''error'', vg_loading := False\<rparr>)"

definition handleSubmit :: "(string \<Rightarrow> string) \<Rightarrow> video_world \<Rightarrow> video_panel \<Rightarrow> video_panel" where
  "handleSubmit t w s =
     (case generateVideo w (vg_prompt s) (vg_imageFile s) (vg_aspectRatio s) [] of
        None \<Rightarrow> handleSubmit_begin s
      | Some (outcome, tr) \<Rightarrow> handleSubmit_settle t outcome (handleSubmit_begin s))"

section \<open>Image editing\<close>

text \<open>
  The response of the content-generation call as \<^verbatim>\<open>editImage\<close> reads it:
  \<^verbatim>\<open>response.candidates[0].content.parts\<close>, each part with or without inline data. The
  code reads the chain without a guard, so an absent member raises a \<^verbatim>\<open>TypeError\<close>.
\<close>

record inline_data =
  inline_bytes :: string
  mimeType :: string

record part =
  inlineData :: "inline_data option"
  part_text :: "string option"

record content =
  parts :: "part list option"

record candidate =
  content_member :: "content option"

record content_response =
  candidates :: "candidate list option"

record edit_world = media_env +
  generateImageContent :: "thrown + content_response"

definition response_parts :: "content_response \<Rightarrow> thrown + part list" where
  "response_parts response =
     (case candidates response of
        None \<Rightarrow> Inl (TypeError ''Cannot read properties of undefined (reading '0')'')
      | Some [] \<Rightarrow> Inl (TypeError ''Cannot read properties of undefined (reading 'content')'')
      | Some (c # _) \<Rightarrow>
          (case content_member c of
             None \<Rightarrow> Inl (TypeError ''Cannot read properties of undefined (reading 'parts')'')
           | Some ct \<Rightarrow>
               (case parts ct of
                  None \<Rightarrow> Inl (TypeError ''response.candidates[0].content.parts is not iterable'')
                | Some ps \<Rightarrow> Inr ps)))"

text \<open>The \<^verbatim>\<open>for\<close> loop over the parts, with the \<^verbatim>\<open>throw\<close> that follows it.\<close>

fun editImage_scan :: "part list \<Rightarrow> thrown + string" where
  "editImage_scan [] = Inl (Error ''Image editing failed.'')"
| "editImage_scan (p # ps) =
     (case inlineData p of
        Some d \<Rightarrow> Inr (''data:'' @ mimeType d @ '';base64,'' @ inline_bytes d)
      | None \<Rightarrow> editImage_scan ps)"

definition editImage :: "edit_world \<Rightarrow> js_file \<Rightarrow> string \<Rightarrow> string async" where
  "editImage w imageFile prompt =
     bind (await (getAi w)) (\<lambda>ai.
     bind (emit (ReadFile (file_name imageFile))) (\<lambda>_.
     bind (await (fileToBase64 w imageFile)) (\<lambda>base64Image.
     bind (emit (GenerateContent ''gemini-2.5-flash-image'' (file_type imageFile) base64Image prompt)) (\<lambda>_.
     bind (await (generateImageContent w)) (\<lambda>response.
     bind (await (response_parts response)) (\<lambda>ps.
     await (editImage_scan ps)))))))"

section \<open>Text to speech\<close>

text \<open>
  \<^verbatim>\<open>textToSpeech\<close> reads the same chain of the response, with optional chaining:
  \<^verbatim>\<open>response.candidates?.[0]?.content?.parts?.[0]?.inlineData?.data\<close>. An absent member
  gives \<^verbatim>\<open>undefined\<close>, which the test after it treats like the empty string.
\<close>

record speech_world = env +
  generateSpeechContent :: "thrown + content_response"

definition base64Audio :: "content_response \<Rightarrow> string option" where
  "base64Audio response =
     (case candidates response of
        None \<Rightarrow> None
      | Some [] \<Rightarrow> None
      | Some (c # _) \<Rightarrow>
          (case content_member c of
             None \<Rightarrow> None
           | Some ct \<Rightarrow>
               (case parts ct of
                  None \<Rightarrow> None
                | Some [] \<Rightarrow> None
                | Some (p # _) \<Rightarrow>
                    (case inlineData p of
                       None \<Rightarrow> None
                     | Some d \<Rightarrow> Some (inline_bytes d)))))"

definition textToSpeech :: "speech_world \<Rightarrow> string \<Rightarrow> string async" where
  "textToSpeech w txt =
     bind (await (getAi w)) (\<lambda>ai.
     bind (emit (GenerateSpeech txt)) (\<lambda>_.
     bind (await (generateSpeechContent w)) (\<lambda>response.
       case base64Audio response of
         None \<Rightarrow> throw (Error ''Text-to-speech conversion failed.'')
       | Some audio \<Rightarrow>
           if audio = [] then throw (Error ''Text-to-speech conversion failed.'')
           else resolve audio)))"

section \<open>The chat panel\<close>

datatype role = User | Model

record ChatMessage =
  role :: role
  message_parts :: "string list"

text \<open>
  \<^verbatim>\<open>createChat\<close> builds a client and asks it for a chat object on the given history:
  this is the chat object of a client that was built. The object keeps the conversation
  inside the SDK; the panel only holds the reference.
\<close>

record chat =
  chat_model :: string
  chat_history :: "ChatMessage list"

definition createChat :: "ChatMessage list \<Rightarrow> chat" where
  "createChat history = \<lparr>chat_model = ''gemini-2.5-flash'', chat_history = history\<rparr>"

text \<open>
  \<^verbatim>\<open>String.prototype.trim\<close> removes white space and line terminators at both ends.
  Characters here are the code units up to U+00FF, of which these are white space:
  tab, line feed, vertical tab, form feed, carriage return, space and no-break space.
\<close>

definition is_white_space :: "char \<Rightarrow> bool" where
  "is_white_space c =
     (c \<in> set [CHR 0x09, CHR 0x0A, CHR 0x0B, CHR 0x0C, CHR 0x0D, CHR 0x20, CHR 0xA0])"

definition trim :: "string \<Rightarrow> string" where
  "trim s = rev (dropWhile is_white_space (rev (dropWhile is_white_space s)))"

record chat_panel =
  messages :: "ChatMessage list"
  currentInput :: string
  loading :: bool
  error :: string
  chatRef :: "chat option"

text \<open>The panel when it is mounted: the first effect has stored a fresh chat.\<close>

definition mounted :: chat_panel where
  "mounted = \<lparr>messages = [], currentInput = [], loading = False, error = [],
              chatRef = Some (createChat [])\<rparr>"

text \<open>
  \<^verbatim>\<open>handleSend\<close> up to its \<^verbatim>\<open>await\<close>: the new panel state and the message handed to
  \<^verbatim>\<open>sendMessage\<close>, if any. \<open>handleSend_settle\<close> is what runs when the promise settles:
  the rest of the \<^verbatim>\<open>try\<close>, or the \<^verbatim>\<open>catch\<close>, then the \<^verbatim>\<open>finally\<close>.
\<close>

definition handleSend_begin :: "chat_panel \<Rightarrow> chat_panel \<times> string option" where
  "handleSend_begin s =
     (if trim (currentInput s) = [] \<or> chatRef s = None then (s, None)
      else
        (s\<lparr>messages := messages s @ [\<lparr>role = User, message_parts = [currentInput s]\<rparr>],
           currentInput := [], loading := True, error := []\<rparr>,
         Some (currentInput s)))"

definition handleSend_settle :: "(string \<Rightarrow> string) \<Rightarrow> thrown + string \<Rightarrow> chat_panel \<Rightarrow> chat_panel" where
  "handleSend_settle t outcome s =
     (case outcome of
        Inr response_text \<Rightarrow>
          s\<lparr>messages := messages s @ [\<lparr>role = Model, message_parts = [response_text]\<rparr>],
            loading := False\<rparr>
      | Inl err \<Rightarrow> s\<lparr>error := t ''error'', loading := False\<rparr>)"

text \<open>
  The panel with its requests in flight and the record of what went to the provider and
  came back. User events reach \<^verbatim>\<open>handleSend\<close> through the rendered elements: the input
  is disabled while loading and its key handler tests \<^verbatim>\<open>!loading\<close>; the button is
  disabled while loading or when the trimmed input is empty. \<open>Reply k r\<close> settles the
  request at position \<open>k\<close> of those in flight. Each handler sees the state of the latest
  render.
\<close>

datatype chat_event = SendMessage string | Settled "thrown + string"

datatype ui_event = Change string | KeyPressEnter | Click | Reply nat "thrown + string"

record chat_system =
  panel :: chat_panel
  in_flight :: "string list"
  provider_log :: "chat_event list"

definition handleSend :: "chat_system \<Rightarrow> chat_system" where
  "handleSend sys =
     (case handleSend_begin (panel sys) of
        (s, None) \<Rightarrow> sys\<lparr>panel := s\<rparr>
      | (s, Some promptToSend) \<Rightarrow>
          sys\<lparr>panel := s, in_flight := in_flight sys @ [promptToSend],
              provider_log := provider_log sys @ [SendMessage promptToSend]\<rparr>)"

fun ui_step :: "(string \<Rightarrow> string) \<Rightarrow> chat_system \<Rightarrow> ui_event \<Rightarrow> chat_system" where
  "ui_step t sys (Change v) =
     (if loading (panel sys) then sys else sys\<lparr>panel := (panel sys)\<lparr>currentInput := v\<rparr>\<rparr>)"
| "ui_step t sys KeyPressEnter =
     (if loading (panel sys) then sys else handleSend sys)"
| "ui_step t sys Click =
     (if loading (panel sys) \<or> trim (currentInput (panel sys)) = [] then sys else handleSend sys)"
| "ui_step t sys (Reply k r) =
     (if k < length (in_flight sys)
      then sys\<lparr>panel := handleSend_settle t r (panel sys),
               in_flight := take k (in_flight sys) @ drop (Suc k) (in_flight sys),
               provider_log := provider_log sys @ [Settled r]\<rparr>
      else sys)"

definition ui_run :: "(string \<Rightarrow> string) \<Rightarrow> chat_system \<Rightarrow> ui_event list \<Rightarrow> chat_system" where
  "ui_run t sys evs = foldl (ui_step t) sys evs"

definition started :: chat_system where
  "started = \<lparr>panel = mounted, in_flight = [], provider_log = []\<rparr>"

text \<open>
  A provider log in which no message is sent while another is unanswered: sends and
  settlements alternate, beginning with a send. The flag says whether a send is open.
\<close>

fun one_at_a_time :: "bool \<Rightarrow> chat_event list \<Rightarrow> bool" where
  "one_at_a_time busy [] = True"
| "one_at_a_time busy (SendMessage m # rest) = (\<not> busy \<and> one_at_a_time True rest)"
| "one_at_a_time busy (Settled r # rest) = (busy \<and> one_at_a_time False rest)"

fun open_after :: "bool \<Rightarrow> chat_event list \<Rightarrow> bool" where
  "open_after busy [] = busy"
| "open_after busy (SendMessage m # rest) = open_after True rest"
| "open_after busy (Settled r # rest) = open_after False rest"

text \<open>What the panel and the requests in flight have to do with each other.\<close>

definition consistent :: "chat_system \<Rightarrow> bool" where
  "consistent sys =
     (length (in_flight sys) \<le> 1
      \<and> (loading (panel sys) \<longleftrightarrow> in_flight sys \<noteq> [])
      \<and> (open_after False (provider_log sys) \<longleftrightarrow> in_flight sys \<noteq> [])
      \<and> one_at_a_time False (provider_log sys))"

fun alternating :: "role \<Rightarrow> ChatMessage list \<Rightarrow> bool" where
  "alternating r [] = True"
| "alternating r (m # ms) =
     (role m = r \<and> alternating (case r of User \<Rightarrow> Model | Model \<Rightarrow> User) ms)"

text \<open>
  The observer the analysis panels pass (\<^verbatim>\<open>handleStateChange\<close>): it stores the label in
  the panel's loading state and returns. The call itself is the \<open>StateChange\<close> event.
\<close>

definition handleStateChange :: "string \<Rightarrow> thrown + unit" where
  "handleStateChange state = Inr ()"

fun is_notify :: "event \<Rightarrow> bool" where
  "is_notify (StateChange label) = True"
| "is_notify _ = False"

text \<open>The steps of a run that the ordering of notifications is measured against.\<close>

fun is_milestone :: "event \<Rightarrow> bool" where
  "is_milestone ev = (is_notify ev \<or> is_upload ev \<or> is_analysis ev)"

section \<open>The upload, analyse, clean-up pipeline\<close>

lemmas async_defs = bind_def emit_def await_def throw_def resolve_def notify_def read_uri_def

lemma analyzeAudioContent_eq: "analyzeAudioContent = analyzeVideoContent"
  by (simp add: fun_eq_iff analyzeAudioContent_def analyzeVideoContent_def)

lemma uploadFile_trace:
  "uploadFile w f tr0 = (r, tr) \<Longrightarrow>
     \<exists>ext. tr = tr0 @ ext \<and> filter is_delete ext = [] \<and> filter is_notify ext = []
          \<and> filter is_analysis ext = []"
  by (auto simp: uploadFile_def async_defs split: option.splits if_splits sum.splits)

lemma uploadFile_not_ok:
  "API_KEY w = Some k \<Longrightarrow> k \<noteq> [] \<Longrightarrow> upload_fetch w = Inr resp \<Longrightarrow> \<not> ok resp \<Longrightarrow>
   body_text resp = Inr errorText \<Longrightarrow>
   uploadFile w f tr0 =
     (Inl (Error (''File upload failed: '' @ errorText)),
      tr0 @ [HttpRequest ''POST'' (upload_url k), ConsoleError (''File upload failed: '' @ errorText)])"
  by (simp add: uploadFile_def async_defs)

lemma uploadFile_ok:
  "API_KEY w = Some k \<Longrightarrow> k \<noteq> [] \<Longrightarrow> upload_fetch w = Inr resp \<Longrightarrow> ok resp \<Longrightarrow>
   body_json resp = Inr j \<Longrightarrow>
   uploadFile w f tr0 = (Inr (file_member j), tr0 @ [HttpRequest ''POST'' (upload_url k)])"
  by (simp add: uploadFile_def async_defs)

text \<open>The path on which everything succeeds: one delete request, after the analysis.\<close>

lemma analysis_success_deletes_once:
  assumes "onStateChange ''uploading'' = Inr ()"
    and "uploadFile w f [StateChange ''uploading''] = (Inr (Some r), tr)"
    and "onStateChange ''analyzing'' = Inr ()"
    and "getAi w = Inr ()"
    and "generateContent w = Inr txt"
  shows "analyzeVideoContent w f prompt onStateChange [] =
           (Inr txt, tr @ [StateChange ''analyzing'',
                          GenerateContent ''gemini-2.5-pro'' (file_type f) (remote_uri r) prompt,
                          HttpRequest ''DELETE'' (delete_url (remote_name r) (API_KEY w))])"
  using assms by (simp add: analyzeVideoContent_def async_defs)

text \<open>
  The path on which the analysis call is rejected: the function is left at the awaited
  call, which nothing surrounds, so the statements after it are not reached. The caller
  gets the error of the analysis call.
\<close>

lemma analysis_failure_ends_run:
  assumes "onStateChange ''uploading'' = Inr ()"
    and "uploadFile w f [StateChange ''uploading''] = (Inr (Some r), tr)"
    and "onStateChange ''analyzing'' = Inr ()"
    and "getAi w = Inr ()"
    and "generateContent w = Inl e"
  shows "analyzeVideoContent w f prompt onStateChange [] =
           (Inl e, tr @ [StateChange ''analyzing'',
                         GenerateContent ''gemini-2.5-pro'' (file_type f) (remote_uri r) prompt])"
  using assms by (simp add: analyzeVideoContent_def async_defs)

text \<open>
  Claim C1: when the upload succeeds and the analysis call fails, the delete request for
  the uploaded file is still issued exactly once, and the caller gets the analysis
  error. The code returns the analysis error, but it misses the clean-up it attempts
  after the call: in the run below the upload succeeds, the analysis call is rejected,
  and the trace ends with the analysis call, with no delete request for the uploaded
  file \<^verbatim>\<open>files/a\<close>.
\<close>

theorem analysis_failure_misses_delete:
  "analyzeVideoContent
      \<lparr>API_KEY = Some ''k'', getAi = Inr (),
       upload_fetch = Inr \<lparr>ok = True, body_text = Inr '''',
         body_json = Inr \<lparr>file_member = Some \<lparr>remote_name = ''files/a'', remote_uri = ''u''\<rparr>\<rparr>\<rparr>,
       generateContent = Inl (Error ''overloaded'')\<rparr>
      \<lparr>file_name = ''a.mp4'', file_type = ''video/mp4''\<rparr> ''describe'' handleStateChange []
    = (Inl (Error ''overloaded''),
       [StateChange ''uploading'', HttpRequest ''POST'' (upload_url ''k''),
        StateChange ''analyzing'',
        GenerateContent ''gemini-2.5-pro'' ''video/mp4'' ''u'' ''describe''])
   \<and> analyzeAudioContent
      \<lparr>API_KEY = Some ''k'', getAi = Inr (),
       upload_fetch = Inr \<lparr>ok = True, body_text = Inr '''',
         body_json = Inr \<lparr>file_member = Some \<lparr>remote_name = ''files/a'', remote_uri = ''u''\<rparr>\<rparr>\<rparr>,
       generateContent = Inl (Error ''overloaded'')\<rparr>
      \<lparr>file_name = ''a.mp3'', file_type = ''audio/mpeg''\<rparr> ''describe'' handleStateChange []
    = (Inl (Error ''overloaded''),
       [StateChange ''uploading'', HttpRequest ''POST'' (upload_url ''k''),
        StateChange ''analyzing'',
        GenerateContent ''gemini-2.5-pro'' ''audio/mpeg'' ''u'' ''describe''])
   \<and> length (filter is_delete
        [StateChange ''uploading'', HttpRequest ''POST'' (upload_url ''k''),
         StateChange ''analyzing'',
         GenerateContent ''gemini-2.5-pro'' ''video/mp4'' ''u'' ''describe'']) = 0
   \<and> length (filter is_delete
        [StateChange ''uploading'', HttpRequest ''POST'' (upload_url ''k''),
         StateChange ''analyzing'',
         GenerateContent ''gemini-2.5-pro'' ''audio/mpeg'' ''u'' ''describe'']) = 0"
  by (simp add: analyzeVideoContent_def analyzeAudioContent_def uploadFile_def async_defs
      handleStateChange_def)

text \<open>
  Claim C4: when the upload fails, no delete request is issued and the upload error is
  what the caller gets. Stated for any failure of \<open>uploadFile\<close>; for a response that is
  not ok the error is the \<^verbatim>\<open>File upload failed\<close> error carrying the response text.
\<close>

theorem upload_failure_skips_cleanup:
  assumes "onStateChange ''uploading'' = Inr ()"
    and "uploadFile w f [StateChange ''uploading''] = (Inl e, tr)"
  shows "analyzeVideoContent w f prompt onStateChange [] = (Inl e, tr)
       \<and> analyzeAudioContent w f prompt onStateChange [] = (Inl e, tr)
       \<and> filter is_delete tr = []
       \<and> (API_KEY w = Some k \<and> k \<noteq> [] \<and> upload_fetch w = Inr resp \<and> \<not> ok resp
            \<and> body_text resp = Inr errorText
          \<longrightarrow> e = Error (''File upload failed: '' @ errorText))"
proof -
  have v: "analyzeVideoContent w f prompt onStateChange [] = (Inl e, tr)"
    using assms by (simp add: analyzeVideoContent_def async_defs)
  from uploadFile_trace [OF assms(2)] have d: "filter is_delete tr = []"
    by auto
  have n: "API_KEY w = Some k \<and> k \<noteq> [] \<and> upload_fetch w = Inr resp \<and> \<not> ok resp
            \<and> body_text resp = Inr errorText
          \<longrightarrow> e = Error (''File upload failed: '' @ errorText)"
    using assms(2) by (auto simp: uploadFile_not_ok)
  from v d n show ?thesis
    by (simp add: analyzeAudioContent_eq)
qed

theorem upload_failure_skips_cleanup_witness:
  "analyzeVideoContent
      \<lparr>API_KEY = Some ''k'', getAi = Inr (),
       upload_fetch = Inr \<lparr>ok = False, body_text = Inr ''quota'', body_json = Inl NonError\<rparr>,
       generateContent = Inr ''summary''\<rparr>
      \<lparr>file_name = ''a.mp4'', file_type = ''video/mp4''\<rparr> ''describe'' handleStateChange []
    = (Inl (Error ''File upload failed: quota''),
       [StateChange ''uploading'', HttpRequest ''POST'' (upload_url ''k''),
        ConsoleError ''File upload failed: quota''])
   \<and> filter is_delete
        [StateChange ''uploading'', HttpRequest ''POST'' (upload_url ''k''),
         ConsoleError ''File upload failed: quota''] = []"
proof -
  let ?w = "\<lparr>API_KEY = Some ''k'', getAi = Inr (),
       upload_fetch = Inr \<lparr>ok = False, body_text = Inr ''quota'', body_json = Inl NonError\<rparr>,
       generateContent = Inr ''summary''\<rparr>"
  let ?f = "\<lparr>file_name = ''a.mp4'', file_type = ''video/mp4''\<rparr>"
  have h1: "handleStateChange ''uploading'' = Inr ()"
    by (simp add: handleStateChange_def)
  have h2: "uploadFile ?w ?f [StateChange ''uploading''] =
     (Inl (Error ''File upload failed: quota''),
      [StateChange ''uploading'', HttpRequest ''POST'' (upload_url ''k''),
       ConsoleError ''File upload failed: quota''])"
    by (simp add: uploadFile_def async_defs)
  show ?thesis
    using upload_failure_skips_cleanup [where onStateChange = handleStateChange and w = ?w
        and f = ?f and e = "Error ''File upload failed: quota''" and prompt = "''describe''"
        and tr = "[StateChange ''uploading'', HttpRequest ''POST'' (upload_url ''k''),
                   ConsoleError ''File upload failed: quota'']"
        and k = "''k''" and errorText = "''quota''"
        and resp = "\<lparr>ok = False, body_text = Inr ''quota'', body_json = Inl NonError\<rparr>"]
      h1 h2
    by simp
qed

text \<open>
  Claim C2, as stated: an observer that throws does not abort the task. Below, the same
  environment and file are run with the panel's observer and with an observer that
  throws: the first run delivers the analysis text, the second is rejected with the
  observer's error and makes no upload request.
\<close>

theorem throwing_observer_counterexample:
  "fst (analyzeVideoContent
      \<lparr>API_KEY = Some ''k'', getAi = Inr (),
       upload_fetch = Inr \<lparr>ok = True, body_text = Inr '''',
         body_json = Inr \<lparr>file_member = Some \<lparr>remote_name = ''files/a'', remote_uri = ''u''\<rparr>\<rparr>\<rparr>,
       generateContent = Inr ''summary''\<rparr>
      \<lparr>file_name = ''a.mp4'', file_type = ''video/mp4''\<rparr> ''describe'' handleStateChange [])
     = Inr ''summary''
   \<and> analyzeVideoContent
      \<lparr>API_KEY = Some ''k'', getAi = Inr (),
       upload_fetch = Inr \<lparr>ok = True, body_text = Inr '''',
         body_json = Inr \<lparr>file_member = Some \<lparr>remote_name = ''files/a'', remote_uri = ''u''\<rparr>\<rparr>\<rparr>,
       generateContent = Inr ''summary''\<rparr>
      \<lparr>file_name = ''a.mp4'', file_type = ''video/mp4''\<rparr> ''describe'' (Inl \<circ> Error) []
     = (Inl (Error ''uploading''), [StateChange ''uploading''])
   \<and> analyzeAudioContent
      \<lparr>API_KEY = Some ''k'', getAi = Inr (),
       upload_fetch = Inr \<lparr>ok = True, body_text = Inr '''',
         body_json = Inr \<lparr>file_member = Some \<lparr>remote_name = ''files/a'', remote_uri = ''u''\<rparr>\<rparr>\<rparr>,
       generateContent = Inr ''summary''\<rparr>
      \<lparr>file_name = ''a.mp3'', file_type = ''audio/mpeg''\<rparr> ''describe'' (Inl \<circ> Error) []
     = (Inl (Error ''uploading''), [StateChange ''uploading''])"
  by (simp add: analyzeVideoContent_def analyzeAudioContent_def uploadFile_def async_defs
      handleStateChange_def)

text \<open>
  Claim C2, amended: the observer is called without a guard, so what it throws ends the
  run. Thrown at \<^verbatim>\<open>'uploading'\<close>, the caller gets the observer's error and nothing else
  happens (no upload, no analysis, no delete). Thrown at \<^verbatim>\<open>'analyzing'\<close>, after an
  upload that returned, the caller gets the observer's error and the run stops there (no
  analysis, no delete).
\<close>

theorem throwing_observer_aborts:
  "(onStateChange ''uploading'' = Inl e \<longrightarrow>
      analyzeVideoContent w f prompt onStateChange [] = (Inl e, [StateChange ''uploading''])
    \<and> analyzeAudioContent w f prompt onStateChange [] = (Inl e, [StateChange ''uploading'']))
 \<and> (onStateChange ''uploading'' = Inr ()
      \<and> uploadFile w f [StateChange ''uploading''] = (Inr uploaded, tr)
      \<and> onStateChange ''analyzing'' = Inl e \<longrightarrow>
      analyzeVideoContent w f prompt onStateChange [] = (Inl e, tr @ [StateChange ''analyzing''])
    \<and> analyzeAudioContent w f prompt onStateChange [] = (Inl e, tr @ [StateChange ''analyzing''])
    \<and> filter is_analysis (tr @ [StateChange ''analyzing'']) = []
    \<and> filter is_delete (tr @ [StateChange ''analyzing'']) = [])"
proof -
  have first: "analyzeVideoContent w f prompt onStateChange [] = (Inl e, [StateChange ''uploading''])"
    if "onStateChange ''uploading'' = Inl e"
    using that by (simp add: analyzeVideoContent_def async_defs)
  have second: "analyzeVideoContent w f prompt onStateChange [] = (Inl e, tr @ [StateChange ''analyzing''])"
    if "onStateChange ''uploading'' = Inr ()"
      and "uploadFile w f [StateChange ''uploading''] = (Inr uploaded, tr)"
      and "onStateChange ''analyzing'' = Inl e"
    using that by (simp add: analyzeVideoContent_def async_defs)
  have quiet: "filter is_analysis tr = [] \<and> filter is_delete tr = []"
    if "uploadFile w f [StateChange ''uploading''] = (Inr uploaded, tr)"
    using uploadFile_trace [OF that] by auto
  from first second quiet show ?thesis
    by (simp add: analyzeAudioContent_eq)
qed

theorem throwing_observer_aborts_witness:
  "analyzeVideoContent
      \<lparr>API_KEY = Some ''k'', getAi = Inr (),
       upload_fetch = Inr \<lparr>ok = True, body_text = Inr '''',
         body_json = Inr \<lparr>file_member = Some \<lparr>remote_name = ''files/a'', remote_uri = ''u''\<rparr>\<rparr>\<rparr>,
       generateContent = Inr ''summary''\<rparr>
      \<lparr>file_name = ''a.mp4'', file_type = ''video/mp4''\<rparr> ''describe'' (Inl \<circ> Error) []
     = (Inl (Error ''uploading''), [StateChange ''uploading''])
   \<and> analyzeVideoContent
      \<lparr>API_KEY = Some ''k'', getAi = Inr (),
       upload_fetch = Inr \<lparr>ok = True, body_text = Inr '''',
         body_json = Inr \<lparr>file_member = Some \<lparr>remote_name = ''files/a'', remote_uri = ''u''\<rparr>\<rparr>\<rparr>,
       generateContent = Inr ''summary''\<rparr>
      \<lparr>file_name = ''a.mp4'', file_type = ''video/mp4''\<rparr> ''describe''
      (handleStateChange(''analyzing'' := Inl NonError)) []
     = (Inl NonError,
        [StateChange ''uploading'', HttpRequest ''POST'' (upload_url ''k''),
         StateChange ''analyzing''])"
proof -
  let ?w = "\<lparr>API_KEY = Some ''k'', getAi = Inr (),
       upload_fetch = Inr \<lparr>ok = True, body_text = Inr '''',
         body_json = Inr \<lparr>file_member = Some \<lparr>remote_name = ''files/a'', remote_uri = ''u''\<rparr>\<rparr>\<rparr>,
       generateContent = Inr ''summary''\<rparr>"
  let ?f = "\<lparr>file_name = ''a.mp4'', file_type = ''video/mp4''\<rparr>"
  let ?obs = "handleStateChange(''analyzing'' := Inl NonError)"
  have a1: "(Inl \<circ> Error) ''uploading'' = (Inl (Error ''uploading'') :: thrown + unit)"
    by simp
  have b1: "?obs ''uploading'' = Inr ()"
    by (simp add: handleStateChange_def)
  have b2: "uploadFile ?w ?f [StateChange ''uploading''] =
     (Inr (Some \<lparr>remote_name = ''files/a'', remote_uri = ''u''\<rparr>),
      [StateChange ''uploading'', HttpRequest ''POST'' (upload_url ''k'')])"
    by (simp add: uploadFile_def async_defs)
  have b3: "?obs ''analyzing'' = Inl NonError"
    by simp
  show ?thesis
    using throwing_observer_aborts [of "Inl \<circ> Error" "Error ''uploading''" ?w ?f "''describe''"]
      throwing_observer_aborts [of ?obs NonError ?w ?f "''describe''"
        "Some \<lparr>remote_name = ''files/a'', remote_uri = ''u''\<rparr>"
        "[StateChange ''uploading'', HttpRequest ''POST'' (upload_url ''k'')]"]
      a1 b1 b2 b3
    by simp
qed


text \<open>
  Claim C7, as stated: in every run the observer is called with \<^verbatim>\<open>'analyzing'\<close> exactly
  once. In the run below the upload response is not ok, and the observer is never
  called with \<^verbatim>\<open>'analyzing'\<close>.
\<close>

theorem analyzing_notification_counterexample:
  "count_list (snd (analyzeVideoContent
      \<lparr>API_KEY = Some ''k'', getAi = Inr (),
       upload_fetch = Inr \<lparr>ok = False, body_text = Inr ''quota'', body_json = Inl NonError\<rparr>,
       generateContent = Inr ''summary''\<rparr>
      \<lparr>file_name = ''a.mp4'', file_type = ''video/mp4''\<rparr> ''describe'' handleStateChange []))
     (StateChange ''analyzing'') \<noteq> 1
   \<and> count_list (snd (analyzeAudioContent
      \<lparr>API_KEY = Some ''k'', getAi = Inr (),
       upload_fetch = Inr \<lparr>ok = False, body_text = Inr ''quota'', body_json = Inl NonError\<rparr>,
       generateContent = Inr ''summary''\<rparr>
      \<lparr>file_name = ''a.mp3'', file_type = ''audio/mpeg''\<rparr> ''describe'' handleStateChange []))
     (StateChange ''analyzing'') \<noteq> 1"
  by (simp add: analyzeVideoContent_def analyzeAudioContent_def uploadFile_def async_defs
      handleStateChange_def)

lemma uploadFile_cases:
  "uploadFile w f tr0 = (r, tr) \<Longrightarrow>
     tr = tr0 \<or> (\<exists>x. tr = tr0 @ [HttpRequest ''POST'' (upload_url (template (API_KEY w)))]
                   \<or> tr = tr0 @ [HttpRequest ''POST'' (upload_url (template (API_KEY w))), ConsoleError x])"
  by (auto simp: uploadFile_def async_defs split: option.splits if_splits sum.splits)

lemma analyze_after_upload:
  assumes "onStateChange ''uploading'' = Inr ()"
    and "uploadFile w f [StateChange ''uploading''] = (Inr uploaded, tr)"
  shows "\<exists>rest. snd (analyzeVideoContent w f prompt onStateChange []) = tr @ StateChange ''analyzing'' # rest
            \<and> filter is_notify rest = []
            \<and> (\<exists>u. prefix (filter is_milestone rest) [GenerateContent ''gemini-2.5-pro'' (file_type f) u prompt])"
  using assms
  by (auto simp: analyzeVideoContent_def async_defs split: option.splits sum.splits)

lemma analyze_milestones:
  "\<exists>u. prefix (filter is_milestone (snd (analyzeVideoContent w f prompt onStateChange [])))
         [StateChange ''uploading'', HttpRequest ''POST'' (upload_url (template (API_KEY w))),
          StateChange ''analyzing'', GenerateContent ''gemini-2.5-pro'' (file_type f) u prompt]"
proof (cases "onStateChange ''uploading''")
  case (Inl e)
  then show ?thesis
    by (simp add: analyzeVideoContent_def async_defs)
next
  case (Inr u)
  then have up: "onStateChange ''uploading'' = Inr ()"
    by simp
  obtain r tr where run: "uploadFile w f [StateChange ''uploading''] = (r, tr)"
    by (cases "uploadFile w f [StateChange ''uploading'']") auto
  from uploadFile_cases [OF run]
  have shape: "prefix (filter is_milestone tr)
      [StateChange ''uploading'', HttpRequest ''POST'' (upload_url (template (API_KEY w)))]"
    by auto
  show ?thesis
  proof (cases r)
    case (Inl e)
    with up run have "snd (analyzeVideoContent w f prompt onStateChange []) = tr"
      by (simp add: analyzeVideoContent_def async_defs)
    with shape have "prefix (filter is_milestone (snd (analyzeVideoContent w f prompt onStateChange [])))
        ([StateChange ''uploading'', HttpRequest ''POST'' (upload_url (template (API_KEY w)))]
         @ [StateChange ''analyzing'', GenerateContent ''gemini-2.5-pro'' (file_type f) [] prompt])"
      by (simp only: prefix_prefix)
    then show ?thesis
      by auto
  next
    case (Inr uploaded)
    with run have reached: "filter is_milestone tr =
        [StateChange ''uploading'', HttpRequest ''POST'' (upload_url (template (API_KEY w)))]"
      by (auto simp: uploadFile_def async_defs split: option.splits if_splits sum.splits)
    from run Inr have ret: "uploadFile w f [StateChange ''uploading''] = (Inr uploaded, tr)"
      by simp
    from analyze_after_upload [where onStateChange = onStateChange and prompt = prompt, OF up ret]
    obtain rest u where "snd (analyzeVideoContent w f prompt onStateChange []) =
          tr @ StateChange ''analyzing'' # rest"
      and "prefix (filter is_milestone rest) [GenerateContent ''gemini-2.5-pro'' (file_type f) u prompt]"
      by blast
    with reached show ?thesis
      by (auto simp: prefix_def intro!: exI [of _ u])
  qed
qed

text \<open>
  Claim C7, amended. In every run the calls that matter come in the order
  \<^verbatim>\<open>'uploading'\<close>, upload request, \<^verbatim>\<open>'analyzing'\<close>, analysis call, each at most once and
  none without the ones before it; \<^verbatim>\<open>'uploading'\<close> is notified exactly once, first. When
  that notification returns and the upload returns, \<^verbatim>\<open>'analyzing'\<close> is notified exactly
  once, right after the upload and before the analysis call.
\<close>

theorem notifications_in_order:
  "analyzeAudioContent w f prompt onStateChange = analyzeVideoContent w f prompt onStateChange
 \<and> (\<exists>u. prefix (filter is_milestone (snd (analyzeVideoContent w f prompt onStateChange [])))
         [StateChange ''uploading'', HttpRequest ''POST'' (upload_url (template (API_KEY w))),
          StateChange ''analyzing'', GenerateContent ''gemini-2.5-pro'' (file_type f) u prompt])
 \<and> take 1 (snd (analyzeVideoContent w f prompt onStateChange [])) = [StateChange ''uploading'']
 \<and> count_list (snd (analyzeVideoContent w f prompt onStateChange [])) (StateChange ''uploading'') = 1
 \<and> (onStateChange ''uploading'' = Inr ()
      \<and> uploadFile w f [StateChange ''uploading''] = (Inr uploaded, tr) \<longrightarrow>
      count_list (snd (analyzeVideoContent w f prompt onStateChange [])) (StateChange ''analyzing'') = 1
    \<and> filter is_analysis tr = []
    \<and> (\<exists>rest. snd (analyzeVideoContent w f prompt onStateChange []) = tr @ StateChange ''analyzing'' # rest
          \<and> filter is_notify rest = []))"
proof -
  let ?run = "snd (analyzeVideoContent w f prompt onStateChange [])"
  have same: "analyzeAudioContent w f prompt onStateChange = analyzeVideoContent w f prompt onStateChange"
    by (simp add: analyzeAudioContent_eq)
  have starts: "take 1 ?run = [StateChange ''uploading'']"
    by (auto simp: analyzeVideoContent_def uploadFile_def async_defs
        split: option.splits if_splits sum.splits)
  have once: "count_list ?run (StateChange ''uploading'') = 1"
    by (auto simp: analyzeVideoContent_def uploadFile_def async_defs
        split: option.splits if_splits sum.splits)
  have later: "count_list ?run (StateChange ''analyzing'') = 1
    \<and> filter is_analysis tr = []
    \<and> (\<exists>rest. ?run = tr @ StateChange ''analyzing'' # rest \<and> filter is_notify rest = [])"
    if up: "onStateChange ''uploading'' = Inr ()"
      and ret: "uploadFile w f [StateChange ''uploading''] = (Inr uploaded, tr)"
  proof -
    from uploadFile_cases [OF ret] have quiet: "count_list tr (StateChange ''analyzing'') = 0"
      "filter is_analysis tr = []"
      by auto
    from analyze_after_upload [where onStateChange = onStateChange and prompt = prompt, OF up ret]
    obtain rest where split: "?run = tr @ StateChange ''analyzing'' # rest"
      and silent: "filter is_notify rest = []"
      by blast
    from silent have "StateChange ''analyzing'' \<notin> set rest"
      by (auto simp: filter_empty_conv)
    then have "count_list rest (StateChange ''analyzing'') = 0"
      by (simp add: count_list_0_iff)
    with quiet split silent show ?thesis
      by auto
  qed
  from same analyze_milestones [of w f prompt onStateChange] starts once later
  show ?thesis
    by blast
qed

theorem notifications_in_order_witness:
  "snd (analyzeVideoContent
      \<lparr>API_KEY = Some ''k'', getAi = Inr (),
       upload_fetch = Inr \<lparr>ok = True, body_text = Inr '''',
         body_json = Inr \<lparr>file_member = Some \<lparr>remote_name = ''files/a'', remote_uri = ''u''\<rparr>\<rparr>\<rparr>,
       generateContent = Inr ''summary''\<rparr>
      \<lparr>file_name = ''a.mp4'', file_type = ''video/mp4''\<rparr> ''describe'' handleStateChange [])
    = [StateChange ''uploading'', HttpRequest ''POST'' (upload_url ''k''),
       StateChange ''analyzing'',
       GenerateContent ''gemini-2.5-pro'' ''video/mp4'' ''u'' ''describe'',
       HttpRequest ''DELETE'' (delete_url ''files/a'' (Some ''k''))]
   \<and> count_list (snd (analyzeVideoContent
      \<lparr>API_KEY = Some ''k'', getAi = Inr (),
       upload_fetch = Inr \<lparr>ok = True, body_text = Inr '''',
         body_json = Inr \<lparr>file_member = Some \<lparr>remote_name = ''files/a'', remote_uri = ''u''\<rparr>\<rparr>\<rparr>,
       generateContent = Inr ''summary''\<rparr>
      \<lparr>file_name = ''a.mp4'', file_type = ''video/mp4''\<rparr> ''describe'' handleStateChange []))
      (StateChange ''analyzing'') = 1"
proof -
  let ?w = "\<lparr>API_KEY = Some ''k'', getAi = Inr (),
       upload_fetch = Inr \<lparr>ok = True, body_text = Inr '''',
         body_json = Inr \<lparr>file_member = Some \<lparr>remote_name = ''files/a'', remote_uri = ''u''\<rparr>\<rparr>\<rparr>,
       generateContent = Inr ''summary''\<rparr>"
  let ?f = "\<lparr>file_name = ''a.mp4'', file_type = ''video/mp4''\<rparr>"
  have h1: "handleStateChange ''uploading'' = Inr ()"
    by (simp add: handleStateChange_def)
  have h2: "uploadFile ?w ?f [StateChange ''uploading''] =
     (Inr (Some \<lparr>remote_name = ''files/a'', remote_uri = ''u''\<rparr>),
      [StateChange ''uploading'', HttpRequest ''POST'' (upload_url ''k'')])"
    by (simp add: uploadFile_def async_defs)
  have run: "snd (analyzeVideoContent ?w ?f ''describe'' handleStateChange [])
    = [StateChange ''uploading'', HttpRequest ''POST'' (upload_url ''k''),
       StateChange ''analyzing'',
       GenerateContent ''gemini-2.5-pro'' ''video/mp4'' ''u'' ''describe'',
       HttpRequest ''DELETE'' (delete_url ''files/a'' (Some ''k''))]"
    by (simp add: analyzeVideoContent_def uploadFile_def async_defs handleStateChange_def)
  have "count_list (snd (analyzeVideoContent ?w ?f ''describe'' handleStateChange []))
      (StateChange ''analyzing'') = 1"
    using notifications_in_order [where onStateChange = handleStateChange and w = ?w and f = ?f
        and prompt = "''describe''"
        and uploaded = "Some \<lparr>remote_name = ''files/a'', remote_uri = ''u''\<rparr>"
        and tr = "[StateChange ''uploading'', HttpRequest ''POST'' (upload_url ''k'')]"]
      h1 h2
    by blast
  with run show ?thesis
    by simp
qed


section \<open>Polling and delivery of a generated video\<close>

lemma poll_done: "op_done operation \<Longrightarrow> generateVideo_poll refresh k operation tr = Some (Inr operation, tr)"
  by (simp add: generateVideo_poll.simps)

lemma poll_rounds:
  "\<not> op_done operation \<Longrightarrow> (\<forall>i<n. \<exists>p. refresh (k + i) = Inr p \<and> \<not> op_done p) \<Longrightarrow>
   refresh (k + n) = final \<Longrightarrow> (case final of Inl e \<Rightarrow> True | Inr p \<Rightarrow> op_done p) \<Longrightarrow>
   generateVideo_poll refresh k operation tr =
     Some (final, tr @ concat (replicate (Suc n) [Sleep 10000, GetVideosOperation]))"
proof (induction n arbitrary: k operation tr)
  case 0
  then show ?case
    by (simp add: generateVideo_poll.simps [of refresh k] poll_done split: sum.splits)
next
  case (Suc n)
  from Suc.prems(2) [rule_format, of 0] obtain p where p: "refresh k = Inr p" "\<not> op_done p"
    by auto
  have "\<forall>i<n. \<exists>q. refresh (Suc k + i) = Inr q \<and> \<not> op_done q"
    using Suc.prems(2) by (metis Suc_less_eq add_Suc_shift)
  moreover have "refresh (Suc k + n) = final"
    using Suc.prems(3) by simp
  ultimately have "generateVideo_poll refresh (Suc k) p (tr @ [Sleep 10000, GetVideosOperation]) =
     Some (final, (tr @ [Sleep 10000, GetVideosOperation]) @ concat (replicate (Suc n) [Sleep 10000, GetVideosOperation]))"
    using Suc.IH [of p "Suc k"] p Suc.prems(4) by blast
  then show ?case
    using Suc.prems(1) p by (simp add: generateVideo_poll.simps [of refresh k operation])
qed

lemma poll_result:
  assumes "generateVideo_poll refresh k operation tr = Some y"
  shows "(\<exists>n. snd y = tr @ concat (replicate n [Sleep 10000, GetVideosOperation]))
   \<and> (case fst y of Inl e \<Rightarrow> \<exists>j. refresh j = Inl e | Inr p \<Rightarrow> op_done p)"
proof (rule generateVideo_poll.raw_induct [where P = "\<lambda>refresh k operation tr y.
     (\<exists>n. snd y = tr @ concat (replicate n [Sleep 10000, GetVideosOperation]))
   \<and> (case fst y of Inl e \<Rightarrow> \<exists>j. refresh j = Inl e | Inr p \<Rightarrow> op_done p)", OF _ assms])
  fix poll :: "(nat \<Rightarrow> thrown + operation) \<Rightarrow> nat \<Rightarrow> operation \<Rightarrow> event list
     \<Rightarrow> ((thrown + operation) \<times> event list) option"
  fix refresh k operation tr y
  assume IH: "\<And>refresh k operation tr y. poll refresh k operation tr = Some y \<Longrightarrow>
     (\<exists>n. snd y = tr @ concat (replicate n [Sleep 10000, GetVideosOperation]))
   \<and> (case fst y of Inl e \<Rightarrow> \<exists>j. refresh j = Inl e | Inr p \<Rightarrow> op_done p)"
  assume step: "(if op_done operation then Some (Inr operation, tr)
      else (case refresh k of
           Inl e \<Rightarrow> Some (Inl e, tr @ [Sleep 10000, GetVideosOperation])
         | Inr operation' \<Rightarrow> poll refresh (Suc k) operation' (tr @ [Sleep 10000, GetVideosOperation]))) = Some y"
  show "(\<exists>n. snd y = tr @ concat (replicate n [Sleep 10000, GetVideosOperation]))
   \<and> (case fst y of Inl e \<Rightarrow> \<exists>j. refresh j = Inl e | Inr p \<Rightarrow> op_done p)"
  proof (cases "op_done operation")
    case True
    with step show ?thesis
      by (auto intro: exI [of _ 0])
  next
    case False
    show ?thesis
    proof (cases "refresh k")
      case (Inl e)
      with False step show ?thesis
        by (auto intro: exI [of _ 1])
    next
      case (Inr p)
      with False step have "poll refresh (Suc k) p (tr @ [Sleep 10000, GetVideosOperation]) = Some y"
        by simp
      from IH [OF this] obtain n where
        "snd y = (tr @ [Sleep 10000, GetVideosOperation]) @ concat (replicate n [Sleep 10000, GetVideosOperation])"
        and rest: "case fst y of Inl e \<Rightarrow> \<exists>j. refresh j = Inl e | Inr p \<Rightarrow> op_done p"
        by blast
      then have "snd y = tr @ concat (replicate (Suc n) [Sleep 10000, GetVideosOperation])"
        by simp
      with rest show ?thesis
        by blast
    qed
  qed
qed

lemma start_trace:
  "generateVideo_start w prompt imageFile ar [] = (r, tr) \<Longrightarrow>
     filter is_download tr = [] \<and> filter is_poll tr = [] \<and> CreateObjectURL \<notin> set tr"
  by (auto simp: generateVideo_start_def async_defs split: option.splits sum.splits)

lemma rounds_trace:
  "filter is_download (concat (replicate n [Sleep 10000, GetVideosOperation])) = []
   \<and> length (filter is_poll (concat (replicate n [Sleep 10000, GetVideosOperation]))) = n
   \<and> CreateObjectURL \<notin> set (concat (replicate n [Sleep 10000, GetVideosOperation]))"
  by (induction n) auto

lemma finish_trace:
  "filter is_poll (snd (generateVideo_finish w operation tr)) = filter is_poll tr"
  by (auto simp: generateVideo_finish_def async_defs split: option.splits sum.splits)


text \<open>
  Claim C3: when the first operation is not done, the refresh calls number 1 to \<open>N\<close>
  return operations that are not done and call number \<open>N + 1\<close> returns one that is,
  the loop sleeps ten seconds before each refresh call, makes exactly \<open>N + 1\<close> of them
  and the function goes on with the last operation; when the first operation is done, no
  refresh call is made. (\<open>getVideosOperation w k\<close> is the call number \<open>k + 1\<close>.)
\<close>

theorem polling_until_done:
  assumes start: "generateVideo_start w prompt imageFile ar [] = (Inr initial, tr0)"
  shows "(op_done initial \<longrightarrow>
            generateVideo_poll (getVideosOperation w) 0 initial tr0 = Some (Inr initial, tr0)
          \<and> generateVideo w prompt imageFile ar [] = Some (generateVideo_finish w initial tr0)
          \<and> length (filter is_poll (snd (generateVideo_finish w initial tr0))) = 0)
       \<and> (\<not> op_done initial
            \<and> (\<forall>i<N. \<exists>p. getVideosOperation w i = Inr p \<and> \<not> op_done p)
            \<and> getVideosOperation w N = Inr final \<and> op_done final \<longrightarrow>
            generateVideo_poll (getVideosOperation w) 0 initial tr0 =
              Some (Inr final, tr0 @ concat (replicate (Suc N) [Sleep 10000, GetVideosOperation]))
          \<and> generateVideo w prompt imageFile ar [] =
              Some (generateVideo_finish w final
                     (tr0 @ concat (replicate (Suc N) [Sleep 10000, GetVideosOperation])))
          \<and> length (filter is_poll (snd (generateVideo_finish w final
                     (tr0 @ concat (replicate (Suc N) [Sleep 10000, GetVideosOperation]))))) = Suc N)"
proof -
  from start_trace [OF start] have quiet: "filter is_poll tr0 = []"
    by simp
  have none: "generateVideo_poll (getVideosOperation w) 0 initial tr0 = Some (Inr initial, tr0)
          \<and> generateVideo w prompt imageFile ar [] = Some (generateVideo_finish w initial tr0)
          \<and> length (filter is_poll (snd (generateVideo_finish w initial tr0))) = 0"
    if "op_done initial"
    using that start quiet by (simp add: generateVideo_def poll_done finish_trace)
  have some: "generateVideo_poll (getVideosOperation w) 0 initial tr0 =
              Some (Inr final, tr0 @ concat (replicate (Suc N) [Sleep 10000, GetVideosOperation]))
          \<and> generateVideo w prompt imageFile ar [] =
              Some (generateVideo_finish w final
                     (tr0 @ concat (replicate (Suc N) [Sleep 10000, GetVideosOperation])))
          \<and> length (filter is_poll (snd (generateVideo_finish w final
                     (tr0 @ concat (replicate (Suc N) [Sleep 10000, GetVideosOperation]))))) = Suc N"
    if pending: "\<not> op_done initial"
      and rounds: "\<forall>i<N. \<exists>p. getVideosOperation w i = Inr p \<and> \<not> op_done p"
      and last: "getVideosOperation w N = Inr final" and fin: "op_done final"
  proof -
    have loop: "generateVideo_poll (getVideosOperation w) 0 initial tr0 =
        Some (Inr final, tr0 @ concat (replicate (Suc N) [Sleep 10000, GetVideosOperation]))"
      using poll_rounds [of initial N "getVideosOperation w" 0 "Inr final" tr0] pending rounds last fin
      by simp
    have count: "length (filter is_poll (tr0 @ concat (replicate (Suc N) [Sleep 10000, GetVideosOperation]))) = Suc N"
      using quiet rounds_trace [of "Suc N"] by simp
    from loop count start show ?thesis
      by (simp add: generateVideo_def finish_trace)
  qed
  from none some show ?thesis
    by blast
qed

theorem polling_until_done_witness:
  "generateVideo
     \<lparr>API_KEY = Some ''k'', getAi = Inr (), fileToBase64 = Inr \<circ> file_name,
      generateVideos = Inr \<lparr>op_done = False, op_response = None\<rparr>,
      getVideosOperation = (Inr \<circ> (\<lambda>k. \<lparr>op_done = False, op_response = None\<rparr>))
        (2 := Inr \<lparr>op_done = True, op_response = Some \<lparr>generatedVideos =
           Some [\<lparr>video_member = Some \<lparr>uri = Some ''https://v/1?alt=media''\<rparr>\<rparr>]\<rparr>\<rparr>),
      download_fetch = Inr \<lparr>blob = Inr ''mp4''\<rparr>,
      createObjectURL = append ''blob:''\<rparr>
     ''a cat'' None Landscape_16_9 []
   = Some (Inr ''blob:mp4'',
       [GenerateVideos ''a cat'' None Landscape_16_9,
        Sleep 10000, GetVideosOperation, Sleep 10000, GetVideosOperation,
        Sleep 10000, GetVideosOperation,
        HttpRequest ''GET'' ''https://v/1?alt=media&key=k'', CreateObjectURL])"
proof -
  let ?final = "\<lparr>op_done = True, op_response = Some \<lparr>generatedVideos =
           Some [\<lparr>video_member = Some \<lparr>uri = Some ''https://v/1?alt=media''\<rparr>\<rparr>]\<rparr>\<rparr>"
  let ?w = "\<lparr>API_KEY = Some ''k'', getAi = Inr (), fileToBase64 = Inr \<circ> file_name,
      generateVideos = Inr \<lparr>op_done = False, op_response = None\<rparr>,
      getVideosOperation = (Inr \<circ> (\<lambda>k. \<lparr>op_done = False, op_response = None\<rparr>))(2 := Inr ?final),
      download_fetch = Inr \<lparr>blob = Inr ''mp4''\<rparr>,
      createObjectURL = append ''blob:''\<rparr>"
  have start: "generateVideo_start ?w ''a cat'' None Landscape_16_9 [] =
      (Inr \<lparr>op_done = False, op_response = None\<rparr>, [GenerateVideos ''a cat'' None Landscape_16_9])"
    by (simp add: generateVideo_start_def async_defs)
  have rounds: "\<forall>i<2. \<exists>p. getVideosOperation ?w i = Inr p \<and> \<not> op_done p"
    by simp
  have last: "getVideosOperation ?w 2 = Inr ?final \<and> op_done ?final"
    by simp
  have "generateVideo ?w ''a cat'' None Landscape_16_9 [] =
      Some (generateVideo_finish ?w ?final
        ([GenerateVideos ''a cat'' None Landscape_16_9]
          @ concat (replicate (Suc 2) [Sleep 10000, GetVideosOperation])))"
    using polling_until_done [OF start, of 2 ?final] rounds last by simp
  then show ?thesis
    by (simp add: generateVideo_finish_def downloadLink_def async_defs numeral_2_eq_2)
qed

text \<open>
  Claim C9: when the loop ends with a done operation that has no result URI (no link, or
  the empty string, which the test treats alike), \<^verbatim>\<open>generateVideo\<close> throws
  \<^verbatim>\<open>Video generation failed.\<close>; the run has made no download request and created no
  object URL.
\<close>

theorem missing_video_uri_fails:
  assumes start: "generateVideo_start w prompt imageFile ar [] = (Inr initial, tr0)"
    and loop: "generateVideo_poll (getVideosOperation w) 0 initial tr0 = Some (Inr final, tr1)"
    and nouri: "downloadLink final = None \<or> downloadLink final = Some []"
  shows "generateVideo w prompt imageFile ar [] = Some (Inl (Error ''Video generation failed.''), tr1)
       \<and> filter is_download tr1 = []
       \<and> CreateObjectURL \<notin> set tr1"
proof -
  from nouri have fail: "generateVideo_finish w final tr1 = (Inl (Error ''Video generation failed.''), tr1)"
    by (auto simp: generateVideo_finish_def async_defs)
  from poll_result [OF loop] obtain n where
    "tr1 = tr0 @ concat (replicate n [Sleep 10000, GetVideosOperation])"
    by auto
  with start_trace [OF start] rounds_trace [of n]
  have "filter is_download tr1 = [] \<and> CreateObjectURL \<notin> set tr1"
    by simp
  with start loop fail show ?thesis
    by (simp add: generateVideo_def)
qed

theorem missing_video_uri_fails_witness:
  "generateVideo
     \<lparr>API_KEY = Some ''k'', getAi = Inr (), fileToBase64 = Inr \<circ> file_name,
      generateVideos = Inr \<lparr>op_done = False, op_response = None\<rparr>,
      getVideosOperation = Inr \<circ> (\<lambda>k. \<lparr>op_done = True, op_response = Some \<lparr>generatedVideos = Some []\<rparr>\<rparr>),
      download_fetch = Inr \<lparr>blob = Inr ''mp4''\<rparr>,
      createObjectURL = append ''blob:''\<rparr>
     ''a cat'' None Portrait_9_16 []
   = Some (Inl (Error ''Video generation failed.''),
       [GenerateVideos ''a cat'' None Portrait_9_16, Sleep 10000, GetVideosOperation])"
proof -
  let ?final = "\<lparr>op_done = True, op_response = Some \<lparr>generatedVideos = Some []\<rparr>\<rparr>"
  let ?w = "\<lparr>API_KEY = Some ''k'', getAi = Inr (), fileToBase64 = Inr \<circ> file_name,
      generateVideos = Inr \<lparr>op_done = False, op_response = None\<rparr>,
      getVideosOperation = Inr \<circ> (\<lambda>k. ?final),
      download_fetch = Inr \<lparr>blob = Inr ''mp4''\<rparr>,
      createObjectURL = append ''blob:''\<rparr>"
  have start: "generateVideo_start ?w ''a cat'' None Portrait_9_16 [] =
      (Inr \<lparr>op_done = False, op_response = None\<rparr>, [GenerateVideos ''a cat'' None Portrait_9_16])"
    by (simp add: generateVideo_start_def async_defs)
  have loop: "generateVideo_poll (getVideosOperation ?w) 0 \<lparr>op_done = False, op_response = None\<rparr>
        [GenerateVideos ''a cat'' None Portrait_9_16] =
      Some (Inr ?final, [GenerateVideos ''a cat'' None Portrait_9_16, Sleep 10000, GetVideosOperation])"
    by (simp add: generateVideo_poll.simps)
  have nouri: "downloadLink ?final = None \<or> downloadLink ?final = Some []"
    by (simp add: downloadLink_def)
  show ?thesis
    using missing_video_uri_fails [OF start loop nouri] by simp
qed

text \<open>
  Claim C5: an error raised while \<^verbatim>\<open>generateVideo\<close> runs is the value the function is
  rejected with; nothing catches or wraps it. This holds for the first call, for a
  refresh call of the loop, and for the download of the result (the request and the
  reading of its body), as for the building of the client and the reading of the image.
  Conversely, an error the function is rejected with is one of these, or its own
  \<^verbatim>\<open>Video generation failed.\<close>. The panel's \<^verbatim>\<open>catch\<close> tells the errors whose message
  contains \<^verbatim>\<open>Requested entity was not found.\<close> from all others: for those, and only for
  those, it shows the key error and withdraws the key selection.
\<close>

theorem provider_errors_forwarded:
  "(getAi w = Inr ()
      \<and> (imageFile = None \<or> (\<exists>f b. imageFile = Some f \<and> fileToBase64 w f = Inr b))
      \<and> generateVideos w = Inl e \<longrightarrow>
      (\<exists>tr. generateVideo w prompt imageFile ar [] = Some (Inl e, tr)))
 \<and> (generateVideo_start w prompt imageFile ar [] = (Inr initial, tr_start) \<and> \<not> op_done initial
      \<and> (\<forall>i<N. \<exists>p. getVideosOperation w i = Inr p \<and> \<not> op_done p)
      \<and> getVideosOperation w N = Inl e \<longrightarrow>
      generateVideo w prompt imageFile ar [] =
        Some (Inl e, tr_start @ concat (replicate (Suc N) [Sleep 10000, GetVideosOperation])))
 \<and> (generateVideo_start w prompt imageFile ar [] = (Inr initial, tr_start)
      \<and> generateVideo_poll (getVideosOperation w) 0 initial tr_start = Some (Inr final, tr_loop)
      \<and> downloadLink final = Some link \<and> link \<noteq> []
      \<and> (download_fetch w = Inl e \<or> (\<exists>r. download_fetch w = Inr r \<and> blob r = Inl e)) \<longrightarrow>
      generateVideo w prompt imageFile ar [] =
        Some (Inl e, tr_loop @ [HttpRequest ''GET'' (link @ ''&key='' @ template (API_KEY w))]))
 \<and> (getAi w = Inl e \<longrightarrow> generateVideo w prompt imageFile ar [] = Some (Inl e, []))
 \<and> (getAi w = Inr () \<and> imageFile = Some file \<and> fileToBase64 w file = Inl e \<longrightarrow>
      generateVideo w prompt imageFile ar [] = Some (Inl e, [ReadFile (file_name file)]))
 \<and> (generateVideo w prompt imageFile ar [] = Some (Inl e, any_trace) \<longrightarrow>
      e = Error ''Video generation failed.''
      \<or> getAi w = Inl e
      \<or> (\<exists>f. imageFile = Some f \<and> fileToBase64 w f = Inl e)
      \<or> generateVideos w = Inl e
      \<or> (\<exists>k. getVideosOperation w k = Inl e)
      \<or> download_fetch w = Inl e
      \<or> (\<exists>r. download_fetch w = Inr r \<and> blob r = Inl e))
 \<and> (generateVideo w (vg_prompt s) (vg_imageFile s) (vg_aspectRatio s) [] = Some (Inl e, final_trace) \<longrightarrow>
      handleSubmit t w s =
        (if entity_not_found e
         then (handleSubmit_begin s)\<lparr>vg_error := t ''apiKeyError'', apiKeySelected := False,
                vg_loading := False\<rparr>
         else (handleSubmit_begin s)\<lparr>vg_error := t ''error'', vg_loading := False\<rparr>))
 \<and> (entity_not_found e \<longleftrightarrow>
      (\<exists>m. message e = Some m \<and> sublist ''Requested entity was not found.'' m))
 \<and> (apiKeySelected s \<longrightarrow>
      (apiKeySelected (handleSubmit_settle t (Inl e) (handleSubmit_begin s)) \<longleftrightarrow>
        \<not> entity_not_found e))"
proof -
  have first: "\<exists>tr. generateVideo w prompt imageFile ar [] = Some (Inl e, tr)"
    if "getAi w = Inr ()"
      and "imageFile = None \<or> (\<exists>f b. imageFile = Some f \<and> fileToBase64 w f = Inr b)"
      and "generateVideos w = Inl e"
    using that by (auto simp: generateVideo_def generateVideo_start_def async_defs)
  have polling: "generateVideo w prompt imageFile ar [] =
        Some (Inl e, tr_start @ concat (replicate (Suc N) [Sleep 10000, GetVideosOperation]))"
    if start: "generateVideo_start w prompt imageFile ar [] = (Inr initial, tr_start)"
      and pending: "\<not> op_done initial"
      and rounds: "\<forall>i<N. \<exists>p. getVideosOperation w i = Inr p \<and> \<not> op_done p"
      and last: "getVideosOperation w N = Inl e"
  proof -
    have "generateVideo_poll (getVideosOperation w) 0 initial tr_start =
        Some (Inl e, tr_start @ concat (replicate (Suc N) [Sleep 10000, GetVideosOperation]))"
      using poll_rounds [of initial N "getVideosOperation w" 0 "Inl e" tr_start] pending rounds last
      by simp
    with start show ?thesis
      by (simp add: generateVideo_def)
  qed
  have download: "generateVideo w prompt imageFile ar [] =
        Some (Inl e, tr_loop @ [HttpRequest ''GET'' (link @ ''&key='' @ template (API_KEY w))])"
    if start: "generateVideo_start w prompt imageFile ar [] = (Inr initial, tr_start)"
      and loop: "generateVideo_poll (getVideosOperation w) 0 initial tr_start = Some (Inr final, tr_loop)"
      and link: "downloadLink final = Some link" "link \<noteq> []"
      and fails: "download_fetch w = Inl e \<or> (\<exists>r. download_fetch w = Inr r \<and> blob r = Inl e)"
  proof -
    from link fails have "generateVideo_finish w final tr_loop =
        (Inl e, tr_loop @ [HttpRequest ''GET'' (link @ ''&key='' @ template (API_KEY w))])"
      by (auto simp: generateVideo_finish_def async_defs)
    with start loop show ?thesis
      by (simp add: generateVideo_def)
  qed
  have client: "generateVideo w prompt imageFile ar [] = Some (Inl e, [])"
    if "getAi w = Inl e"
    using that by (simp add: generateVideo_def generateVideo_start_def async_defs)
  have image: "generateVideo w prompt imageFile ar [] = Some (Inl e, [ReadFile (file_name file)])"
    if "getAi w = Inr ()" and "imageFile = Some file" and "fileToBase64 w file = Inl e"
    using that by (simp add: generateVideo_def generateVideo_start_def async_defs)
  have origin: "e = Error ''Video generation failed.''
      \<or> getAi w = Inl e
      \<or> (\<exists>f. imageFile = Some f \<and> fileToBase64 w f = Inl e)
      \<or> generateVideos w = Inl e
      \<or> (\<exists>k. getVideosOperation w k = Inl e)
      \<or> download_fetch w = Inl e
      \<or> (\<exists>r. download_fetch w = Inr r \<and> blob r = Inl e)"
    if run: "generateVideo w prompt imageFile ar [] = Some (Inl e, any_trace)"
  proof -
    obtain outcome tr where start: "generateVideo_start w prompt imageFile ar [] = (outcome, tr)"
      by (cases "generateVideo_start w prompt imageFile ar []") auto
    show ?thesis
    proof (cases outcome)
      case (Inl x)
      with start run have "generateVideo_start w prompt imageFile ar [] = (Inl e, tr)"
        by (simp add: generateVideo_def)
      then show ?thesis
        by (auto simp: generateVideo_start_def async_defs split: option.splits sum.splits)
    next
      case (Inr initial)
      with start run obtain y where
        loop: "generateVideo_poll (getVideosOperation w) 0 initial tr = Some y"
        by (auto simp: generateVideo_def split: option.splits)
      from poll_result [OF loop]
      have kind: "case fst y of Inl x \<Rightarrow> \<exists>j. getVideosOperation w j = Inl x | Inr p \<Rightarrow> op_done p"
        by simp
      show ?thesis
      proof (cases "fst y")
        case (Inl x)
        with start Inr loop run have "x = e"
          by (cases y) (simp add: generateVideo_def)
        with Inl kind show ?thesis
          by auto
      next
        case right: (Inr final)
        with start Inr loop run have "generateVideo_finish w final (snd y) = (Inl e, any_trace)"
          by (cases y) (simp add: generateVideo_def)
        then show ?thesis
          by (auto simp: generateVideo_finish_def async_defs split: option.splits if_splits sum.splits)
      qed
    qed
  qed
  have panel: "handleSubmit t w s =
        (if entity_not_found e
         then (handleSubmit_begin s)\<lparr>vg_error := t ''apiKeyError'', apiKeySelected := False,
                vg_loading := False\<rparr>
         else (handleSubmit_begin s)\<lparr>vg_error := t ''error'', vg_loading := False\<rparr>)"
    if "generateVideo w (vg_prompt s) (vg_imageFile s) (vg_aspectRatio s) [] = Some (Inl e, final_trace)"
    using that by (simp add: handleSubmit_def handleSubmit_settle_def)
  have signature: "entity_not_found e \<longleftrightarrow>
      (\<exists>m. message e = Some m \<and> sublist ''Requested entity was not found.'' m)"
    by (simp add: entity_not_found_def str_includes_def split: option.splits)
  have told: "apiKeySelected (handleSubmit_settle t (Inl e) (handleSubmit_begin s)) \<longleftrightarrow>
        \<not> entity_not_found e"
    if "apiKeySelected s"
    using that by (simp add: handleSubmit_settle_def handleSubmit_begin_def)
  from first polling download client image origin panel signature told show ?thesis
    by blast
qed

theorem provider_errors_forwarded_witness:
  "generateVideo
     \<lparr>API_KEY = Some ''k'', getAi = Inr (), fileToBase64 = Inr \<circ> file_name,
      generateVideos = Inr \<lparr>op_done = False, op_response = None\<rparr>,
      getVideosOperation = (Inr \<circ> (\<lambda>k. \<lparr>op_done = False, op_response = None\<rparr>))
        (1 := Inl (Error ''404 Requested entity was not found.'')),
      download_fetch = Inr \<lparr>blob = Inr ''mp4''\<rparr>,
      createObjectURL = append ''blob:''\<rparr>
     ''a cat'' None Landscape_16_9 []
   = Some (Inl (Error ''404 Requested entity was not found.''),
       [GenerateVideos ''a cat'' None Landscape_16_9,
        Sleep 10000, GetVideosOperation, Sleep 10000, GetVideosOperation])
 \<and> \<not> apiKeySelected (handleSubmit id
     \<lparr>API_KEY = Some ''k'', getAi = Inr (), fileToBase64 = Inr \<circ> file_name,
      generateVideos = Inr \<lparr>op_done = False, op_response = None\<rparr>,
      getVideosOperation = (Inr \<circ> (\<lambda>k. \<lparr>op_done = False, op_response = None\<rparr>))
        (1 := Inl (Error ''404 Requested entity was not found.'')),
      download_fetch = Inr \<lparr>blob = Inr ''mp4''\<rparr>,
      createObjectURL = append ''blob:''\<rparr>
     \<lparr>vg_prompt = ''a cat'', vg_imageFile = None, vg_aspectRatio = Landscape_16_9,
      vg_result = [], vg_loading = False, vg_error = [], apiKeySelected = True,
      checkingApiKey = False\<rparr>)
 \<and> generateVideo
     \<lparr>API_KEY = Some ''k'', getAi = Inr (), fileToBase64 = Inr \<circ> file_name,
      generateVideos = Inr \<lparr>op_done = True, op_response = Some \<lparr>generatedVideos =
           Some [\<lparr>video_member = Some \<lparr>uri = Some ''https://v/1?alt=media''\<rparr>\<rparr>]\<rparr>\<rparr>,
      getVideosOperation = Inr \<circ> (\<lambda>k. \<lparr>op_done = False, op_response = None\<rparr>),
      download_fetch = Inl (TypeError ''Failed to fetch''),
      createObjectURL = append ''blob:''\<rparr>
     ''a cat'' None Landscape_16_9 []
   = Some (Inl (TypeError ''Failed to fetch''),
       [GenerateVideos ''a cat'' None Landscape_16_9,
        HttpRequest ''GET'' ''https://v/1?alt=media&key=k''])"
proof -
  let ?e = "Error ''404 Requested entity was not found.''"
  let ?w = "\<lparr>API_KEY = Some ''k'', getAi = Inr (), fileToBase64 = Inr \<circ> file_name,
      generateVideos = Inr \<lparr>op_done = False, op_response = None\<rparr>,
      getVideosOperation = (Inr \<circ> (\<lambda>k. \<lparr>op_done = False, op_response = None\<rparr>))(1 := Inl ?e),
      download_fetch = Inr \<lparr>blob = Inr ''mp4''\<rparr>,
      createObjectURL = append ''blob:''\<rparr>"
  let ?s = "\<lparr>vg_prompt = ''a cat'', vg_imageFile = None, vg_aspectRatio = Landscape_16_9,
      vg_result = [], vg_loading = False, vg_error = [], apiKeySelected = True,
      checkingApiKey = False\<rparr>"
  let ?tr = "[GenerateVideos ''a cat'' None Landscape_16_9,
        Sleep 10000, GetVideosOperation, Sleep 10000, GetVideosOperation]"
  have start: "generateVideo_start ?w ''a cat'' None Landscape_16_9 [] =
      (Inr \<lparr>op_done = False, op_response = None\<rparr>, [GenerateVideos ''a cat'' None Landscape_16_9])"
    by (simp add: generateVideo_start_def async_defs)
  have rounds: "\<forall>i<1. \<exists>p. getVideosOperation ?w i = Inr p \<and> \<not> op_done p"
    by simp
  have last: "getVideosOperation ?w 1 = Inl ?e"
    by simp
  have found: "entity_not_found ?e"
    by (simp add: entity_not_found_def str_includes_def sublist_code prefix_code)
  note facts = provider_errors_forwarded [where w = ?w and prompt = "''a cat''"
      and imageFile = None and ar = Landscape_16_9 and e = ?e and N = 1 and s = ?s and t = id
      and initial = "\<lparr>op_done = False, op_response = None\<rparr>"
      and tr_start = "[GenerateVideos ''a cat'' None Landscape_16_9]" and final_trace = ?tr]
  from facts start rounds last
  have run: "generateVideo ?w ''a cat'' None Landscape_16_9 [] = Some (Inl ?e, ?tr)"
    by simp
  with facts found have panel: "handleSubmit id ?w ?s =
      (handleSubmit_begin ?s)\<lparr>vg_error := id ''apiKeyError'', apiKeySelected := False,
                vg_loading := False\<rparr>"
    by simp
  let ?ready = "\<lparr>op_done = True, op_response = Some \<lparr>generatedVideos =
           Some [\<lparr>video_member = Some \<lparr>uri = Some ''https://v/1?alt=media''\<rparr>\<rparr>]\<rparr>\<rparr>"
  let ?v = "\<lparr>API_KEY = Some ''k'', getAi = Inr (), fileToBase64 = Inr \<circ> file_name,
      generateVideos = Inr ?ready,
      getVideosOperation = Inr \<circ> (\<lambda>k. \<lparr>op_done = False, op_response = None\<rparr>),
      download_fetch = Inl (TypeError ''Failed to fetch''),
      createObjectURL = append ''blob:''\<rparr>"
  have start_v: "generateVideo_start ?v ''a cat'' None Landscape_16_9 [] =
      (Inr ?ready, [GenerateVideos ''a cat'' None Landscape_16_9])"
    by (simp add: generateVideo_start_def async_defs)
  have loop_v: "generateVideo_poll (getVideosOperation ?v) 0 ?ready
        [GenerateVideos ''a cat'' None Landscape_16_9] =
      Some (Inr ?ready, [GenerateVideos ''a cat'' None Landscape_16_9])"
    by (simp add: generateVideo_poll.simps)
  have link_v: "downloadLink ?ready = Some ''https://v/1?alt=media''"
    by (simp add: downloadLink_def)
  have fetch_v: "download_fetch ?v = Inl (TypeError ''Failed to fetch'')"
    by simp
  have download: "generateVideo ?v ''a cat'' None Landscape_16_9 [] =
      Some (Inl (TypeError ''Failed to fetch''),
        [GenerateVideos ''a cat'' None Landscape_16_9,
         HttpRequest ''GET'' ''https://v/1?alt=media&key=k''])"
    using provider_errors_forwarded [where w = ?v and prompt = "''a cat''"
        and imageFile = None and ar = Landscape_16_9 and e = "TypeError ''Failed to fetch''"
        and initial = ?ready and final = ?ready
        and tr_start = "[GenerateVideos ''a cat'' None Landscape_16_9]"
        and tr_loop = "[GenerateVideos ''a cat'' None Landscape_16_9]"
        and link = "''https://v/1?alt=media''"]
      start_v loop_v link_v fetch_v
    by simp
  from run panel download show ?thesis
    by simp
qed

section \<open>Image editing\<close>

lemma editImage_scan_find:
  "editImage_scan ps =
     (case find (\<lambda>p. inlineData p \<noteq> None) ps of
        None \<Rightarrow> Inl (Error ''Image editing failed.'')
      | Some p \<Rightarrow>
          Inr (''data:'' @ mimeType (the (inlineData p)) @ '';base64,''
               @ inline_bytes (the (inlineData p))))"
  by (induction ps) (auto split: option.splits)

text \<open>
  For a response that carries a list of parts, the result of \<^verbatim>\<open>editImage\<close> is the data
  URI made of the MIME type and the bytes of the first part with inline data; when no
  part has inline data, \<^verbatim>\<open>editImage\<close> fails with its own error
  \<^verbatim>\<open>Image editing failed.\<close>, although the provider call succeeded. An error of the
  provider call itself is passed on as it is.
\<close>

lemma editImage_first_inline_part:
  "(getAi w = Inr () \<and> fileToBase64 w imageFile = Inr b \<and> generateImageContent w = Inr response
      \<and> response_parts response = Inr ps \<longrightarrow>
      editImage w imageFile prompt [] =
        ((case find (\<lambda>p. inlineData p \<noteq> None) ps of
            None \<Rightarrow> Inl (Error ''Image editing failed.'')
          | Some p \<Rightarrow>
              Inr (''data:'' @ mimeType (the (inlineData p)) @ '';base64,''
                   @ inline_bytes (the (inlineData p)))),
         [ReadFile (file_name imageFile),
          GenerateContent ''gemini-2.5-flash-image'' (file_type imageFile) b prompt]))
 \<and> (getAi w = Inr () \<and> fileToBase64 w imageFile = Inr b \<and> generateImageContent w = Inl e \<longrightarrow>
      editImage w imageFile prompt [] =
        (Inl e,
         [ReadFile (file_name imageFile),
          GenerateContent ''gemini-2.5-flash-image'' (file_type imageFile) b prompt]))"
  by (simp add: editImage_def async_defs editImage_scan_find)

lemma editImage_first_inline_part_example:
  "editImage
     \<lparr>API_KEY = Some ''k'', getAi = Inr (), fileToBase64 = Inr \<circ> file_name,
      generateImageContent = Inr \<lparr>candidates = Some [\<lparr>content_member = Some \<lparr>parts = Some
        [\<lparr>inlineData = None, part_text = Some ''done''\<rparr>,
         \<lparr>inlineData = Some \<lparr>inline_bytes = ''QUJD'', mimeType = ''image/png''\<rparr>, part_text = None\<rparr>,
         \<lparr>inlineData = Some \<lparr>inline_bytes = ''REVG'', mimeType = ''image/jpeg''\<rparr>, part_text = None\<rparr>]\<rparr>\<rparr>]\<rparr>\<rparr>
     \<lparr>file_name = ''a.png'', file_type = ''image/png''\<rparr> ''add a hat'' []
   = (Inr ''data:image/png;base64,QUJD'',
      [ReadFile ''a.png'', GenerateContent ''gemini-2.5-flash-image'' ''image/png'' ''a.png'' ''add a hat''])
 \<and> editImage
     \<lparr>API_KEY = Some ''k'', getAi = Inr (), fileToBase64 = Inr \<circ> file_name,
      generateImageContent = Inr \<lparr>candidates = Some [\<lparr>content_member = Some \<lparr>parts = Some
        [\<lparr>inlineData = None, part_text = Some ''no image''\<rparr>]\<rparr>\<rparr>]\<rparr>\<rparr>
     \<lparr>file_name = ''a.png'', file_type = ''image/png''\<rparr> ''add a hat'' []
   = (Inl (Error ''Image editing failed.''),
      [ReadFile ''a.png'', GenerateContent ''gemini-2.5-flash-image'' ''image/png'' ''a.png'' ''add a hat''])"
proof -
  let ?f = "\<lparr>file_name = ''a.png'', file_type = ''image/png''\<rparr>"
  let ?ps1 = "[\<lparr>inlineData = None, part_text = Some ''done''\<rparr>,
         \<lparr>inlineData = Some \<lparr>inline_bytes = ''QUJD'', mimeType = ''image/png''\<rparr>, part_text = None\<rparr>,
         \<lparr>inlineData = Some \<lparr>inline_bytes = ''REVG'', mimeType = ''image/jpeg''\<rparr>, part_text = None\<rparr>]"
  let ?ps2 = "[\<lparr>inlineData = None, part_text = Some ''no image''\<rparr>]"
  let ?r1 = "\<lparr>candidates = Some [\<lparr>content_member = Some \<lparr>parts = Some ?ps1\<rparr>\<rparr>]\<rparr>"
  let ?r2 = "\<lparr>candidates = Some [\<lparr>content_member = Some \<lparr>parts = Some ?ps2\<rparr>\<rparr>]\<rparr>"
  let ?w1 = "\<lparr>API_KEY = Some ''k'', getAi = Inr (), fileToBase64 = Inr \<circ> file_name, generateImageContent = Inr ?r1\<rparr>"
  let ?w2 = "\<lparr>API_KEY = Some ''k'', getAi = Inr (), fileToBase64 = Inr \<circ> file_name, generateImageContent = Inr ?r2\<rparr>"
  have p1: "response_parts ?r1 = Inr ?ps1" and p2: "response_parts ?r2 = Inr ?ps2"
    by (simp_all add: response_parts_def)
  show ?thesis
    using editImage_first_inline_part [where w = ?w1 and imageFile = ?f and b = "''a.png''"
        and response = ?r1 and ps = ?ps1 and prompt = "''add a hat''"]
      editImage_first_inline_part [where w = ?w2 and imageFile = ?f and b = "''a.png''"
        and response = ?r2 and ps = ?ps2 and prompt = "''add a hat''"]
      p1 p2
    by simp
qed

text \<open>
  A response without candidates has no part with inline data. \<^verbatim>\<open>textToSpeech\<close>, which
  reads the chain with optional chaining, answers it with its own error.
\<close>

lemma textToSpeech_without_candidates:
  "getAi w = Inr () \<Longrightarrow> generateSpeechContent w = Inr \<lparr>candidates = None\<rparr> \<Longrightarrow>
   textToSpeech w txt [] = (Inl (Error ''Text-to-speech conversion failed.''), [GenerateSpeech txt])"
  by (simp add: textToSpeech_def base64Audio_def async_defs)

text \<open>
  Claim C6: when no part of the response carries inline data, \<^verbatim>\<open>editImage\<close> fails with
  its error \<^verbatim>\<open>Image editing failed.\<close>. For the response without candidates this is not
  what the code does: the unguarded read \<^verbatim>\<open>response.candidates[0]\<close> raises a
  \<^verbatim>\<open>TypeError\<close> before the scan of the parts begins.
\<close>

theorem editImage_without_candidates:
  "editImage
     \<lparr>API_KEY = Some ''k'', getAi = Inr (), fileToBase64 = Inr \<circ> file_name,
      generateImageContent = Inr \<lparr>candidates = None\<rparr>\<rparr>
     \<lparr>file_name = ''a.png'', file_type = ''image/png''\<rparr> ''add a hat'' []
   = (Inl (TypeError ''Cannot read properties of undefined (reading '0')''),
      [ReadFile ''a.png'',
       GenerateContent ''gemini-2.5-flash-image'' ''image/png'' ''a.png'' ''add a hat''])"
  by (simp add: editImage_def async_defs response_parts_def)

section \<open>The chat panel\<close>

lemma all_dropWhile: "(\<forall>c\<in>set (dropWhile P s). P c) \<longleftrightarrow> (\<forall>c\<in>set s. P c)"
  by (induction s) auto

lemma trim_empty_iff: "trim s = [] \<longleftrightarrow> (\<forall>c\<in>set s. is_white_space c)"
  by (simp add: trim_def dropWhile_eq_Nil_conv all_dropWhile)

text \<open>
  Claim C10: with an input that is empty or all white space, or with no chat object,
  \<^verbatim>\<open>handleSend\<close> returns at once: nothing goes to the provider and the panel, its
  message list included, stays as it was.
\<close>

theorem blank_send_is_ignored:
  assumes "(\<forall>c\<in>set (currentInput (panel sys)). is_white_space c) \<or> chatRef (panel sys) = None"
  shows "handleSend_begin (panel sys) = (panel sys, None)
       \<and> handleSend sys = sys
       \<and> provider_log (handleSend sys) = provider_log sys
       \<and> messages (panel (handleSend sys)) = messages (panel sys)"
proof -
  from assms have "handleSend_begin (panel sys) = (panel sys, None)"
    by (auto simp: handleSend_begin_def trim_empty_iff)
  then show ?thesis
    by (simp add: handleSend_def)
qed

theorem blank_send_is_ignored_witness:
  "handleSend
     \<lparr>panel = \<lparr>messages = [\<lparr>role = User, message_parts = [''hi'']\<rparr>],
               currentInput = [CHR 0x20, CHR 0x09, CHR 0xA0], loading = False, error = [],
               chatRef = Some (createChat [])\<rparr>,
      in_flight = [], provider_log = []\<rparr>
   = \<lparr>panel = \<lparr>messages = [\<lparr>role = User, message_parts = [''hi'']\<rparr>],
               currentInput = [CHR 0x20, CHR 0x09, CHR 0xA0], loading = False, error = [],
               chatRef = Some (createChat [])\<rparr>,
      in_flight = [], provider_log = []\<rparr>
 \<and> handleSend
     \<lparr>panel = \<lparr>messages = [], currentInput = ''hi'', loading = False, error = [],
               chatRef = None\<rparr>,
      in_flight = [], provider_log = []\<rparr>
   = \<lparr>panel = \<lparr>messages = [], currentInput = ''hi'', loading = False, error = [],
               chatRef = None\<rparr>,
      in_flight = [], provider_log = []\<rparr>"
proof -
  let ?a = "\<lparr>panel = \<lparr>messages = [\<lparr>role = User, message_parts = [''hi'']\<rparr>],
               currentInput = [CHR 0x20, CHR 0x09, CHR 0xA0], loading = False, error = [],
               chatRef = Some (createChat [])\<rparr>,
      in_flight = [], provider_log = []\<rparr>"
  let ?b = "\<lparr>panel = \<lparr>messages = [], currentInput = ''hi'', loading = False, error = [],
               chatRef = None\<rparr>,
      in_flight = [], provider_log = []\<rparr>"
  have blank: "\<forall>c\<in>set (currentInput (panel ?a)). is_white_space c"
    by (simp add: is_white_space_def)
  have unset: "chatRef (panel ?b) = None"
    by simp
  show ?thesis
    using blank_send_is_ignored [of ?a] blank_send_is_ignored [of ?b] blank unset
    by blast
qed

lemma one_at_a_time_append:
  "one_at_a_time busy (xs @ ys) \<longleftrightarrow> one_at_a_time busy xs \<and> one_at_a_time (open_after busy xs) ys"
  by (induction busy xs rule: one_at_a_time.induct) auto

lemma open_after_append: "open_after busy (xs @ ys) = open_after (open_after busy xs) ys"
  by (induction busy xs rule: open_after.induct) auto

lemma handleSend_consistent:
  assumes "consistent sys" and "\<not> loading (panel sys)"
  shows "consistent (handleSend sys)"
proof (cases "trim (currentInput (panel sys)) = [] \<or> chatRef (panel sys) = None")
  case True
  then have "handleSend sys = sys"
    by (auto simp: handleSend_def handleSend_begin_def)
  with assms show ?thesis
    by simp
next
  case False
  with assms show ?thesis
    by (auto simp: consistent_def handleSend_def handleSend_begin_def one_at_a_time_append
        open_after_append)
qed

lemma ui_step_consistent: "consistent sys \<Longrightarrow> consistent (ui_step t sys ev)"
proof (cases ev)
  case (Change v)
  assume "consistent sys"
  with Change show ?thesis
    by (simp add: consistent_def)
next
  case KeyPressEnter
  assume "consistent sys"
  with KeyPressEnter show ?thesis
    by (simp add: handleSend_consistent)
next
  case Click
  assume "consistent sys"
  with Click show ?thesis
    by (simp add: handleSend_consistent)
next
  case (Reply k r)
  assume ok: "consistent sys"
  show ?thesis
  proof (cases "k < length (in_flight sys)")
    case False
    with ok Reply show ?thesis
      by simp
  next
    case True
    with ok have "k = 0" and "length (in_flight sys) = 1"
      by (auto simp: consistent_def)
    with ok Reply show ?thesis
      by (auto simp: consistent_def handleSend_settle_def one_at_a_time_append open_after_append
          split: sum.splits)
  qed
qed

lemma ui_run_consistent: "consistent sys \<Longrightarrow> consistent (ui_run t sys evs)"
  unfolding ui_run_def
  by (induction evs arbitrary: sys) (simp_all add: ui_step_consistent)

lemma started_consistent: "consistent started"
  by (simp add: consistent_def started_def mounted_def)

text \<open>
  Claim C8: on one chat, typing a message that is not blank, sending it, getting the
  answer, then the same with a second message, leaves a message list of exactly four
  entries: user, model, user, model. And whatever the user does and whenever the
  answers come, the panel never hands a message to the provider while an earlier one is
  unanswered: in the provider's record sends and settlements (an answer or a failure)
  alternate.
\<close>

theorem two_turns_in_order:
  assumes "trim m1 \<noteq> []" and "trim m2 \<noteq> []"
  shows "messages (panel (ui_run t started
            [Change m1, KeyPressEnter, Reply 0 (Inr r1), Change m2, Click, Reply 0 (Inr r2)]))
          = [\<lparr>role = User, message_parts = [m1]\<rparr>, \<lparr>role = Model, message_parts = [r1]\<rparr>,
             \<lparr>role = User, message_parts = [m2]\<rparr>, \<lparr>role = Model, message_parts = [r2]\<rparr>]
       \<and> length (messages (panel (ui_run t started
            [Change m1, KeyPressEnter, Reply 0 (Inr r1), Change m2, Click, Reply 0 (Inr r2)]))) = 4
       \<and> alternating User (messages (panel (ui_run t started
            [Change m1, KeyPressEnter, Reply 0 (Inr r1), Change m2, Click, Reply 0 (Inr r2)])))
       \<and> provider_log (ui_run t started
            [Change m1, KeyPressEnter, Reply 0 (Inr r1), Change m2, Click, Reply 0 (Inr r2)])
          = [SendMessage m1, Settled (Inr r1), SendMessage m2, Settled (Inr r2)]
       \<and> one_at_a_time False (provider_log (ui_run t started evs))"
proof -
  let ?run = "ui_run t started
            [Change m1, KeyPressEnter, Reply 0 (Inr r1), Change m2, Click, Reply 0 (Inr r2)]"
  have final: "?run =
      \<lparr>panel = \<lparr>messages =
            [\<lparr>role = User, message_parts = [m1]\<rparr>, \<lparr>role = Model, message_parts = [r1]\<rparr>,
             \<lparr>role = User, message_parts = [m2]\<rparr>, \<lparr>role = Model, message_parts = [r2]\<rparr>],
          currentInput = [], loading = False, error = [], chatRef = Some (createChat [])\<rparr>,
       in_flight = [],
       provider_log = [SendMessage m1, Settled (Inr r1), SendMessage m2, Settled (Inr r2)]\<rparr>"
    using assms
    by (simp add: ui_run_def started_def mounted_def handleSend_def handleSend_begin_def
        handleSend_settle_def)
  have "consistent (ui_run t started evs)"
    by (rule ui_run_consistent [OF started_consistent])
  then have "one_at_a_time False (provider_log (ui_run t started evs))"
    by (simp add: consistent_def)
  with final show ?thesis
    by simp
qed

theorem two_turns_in_order_witness:
  "messages (panel (ui_run id started
      [Change ''hi'', KeyPressEnter, Reply 0 (Inr ''hello''),
       Change ''how are you'', Click, Reply 0 (Inr ''fine'')]))
    = [\<lparr>role = User, message_parts = [''hi'']\<rparr>, \<lparr>role = Model, message_parts = [''hello'']\<rparr>,
       \<lparr>role = User, message_parts = [''how are you'']\<rparr>,
       \<lparr>role = Model, message_parts = [''fine'']\<rparr>]
   \<and> one_at_a_time False (provider_log (ui_run id started
      [Change ''hi'', KeyPressEnter, KeyPressEnter, Change ''again'', Click,
       Reply 0 (Inl NonError), Change ''how are you'', Click]))"
proof -
  have a: "trim ''hi'' \<noteq> []" and b: "trim ''how are you'' \<noteq> []"
    by (simp_all add: trim_def is_white_space_def)
  show ?thesis
    using two_turns_in_order [OF a b, of id "''hello''" "''fine''"
        "[Change ''hi'', KeyPressEnter, KeyPressEnter, Change ''again'', Click,
          Reply 0 (Inl NonError), Change ''how are you'', Click]"]
    by simp
qed

end
